theory Spec2Isabelle
  imports Complex_Main "HOL-Library.Sublist"
begin

section \<open>Design-node data model (client/src/types/types.ts)\<close>

text \<open>
  A JavaScript number is modelled as a rational, and the arithmetic of the generators
  (multiplication by 255, division by 4, comparison, rounding) is exact on it.  This is
  the arithmetic of the source on integers and on fractions a double holds exactly;
  for another fraction the double product can fall on the other side of a rounding
  boundary (the channel 0.296078431372549 times 255 is 75.5 in doubles and rounds to 76,
  the exact product rounds to 75).  A string is a list of 8-bit characters; node names
  and text contents are ASCII, so the white space of a name is ASCII white space, and
  the Hungarian message literals of the source are written as their UTF-8 bytes.  An
  optional field \<open>f?: T\<close> is a value of type \<open>T option\<close>, \<open>None\<close> standing for
  \<open>undefined\<close>.
\<close>

record Color =
  color_r :: rat
  color_g :: rat
  color_b :: rat
  color_a :: "rat option"

record Paint =
  paint_type :: string
  paint_color :: "Color option"
  paint_opacity :: "rat option"

record TypeStyle =
  fontFamily :: string
  fontSize :: rat
  fontWeight :: "rat option"
  lineHeightPx :: "rat option"
  letterSpacing :: "rat option"
  style_fills :: "Paint list option"
  textAlignHorizontal :: "string option"

record Effect =
  effect_type :: string
  visible :: "bool option"
  radius :: "rat option"
  effect_color :: "Color option"
  offset :: "(rat \<times> rat) option"

record Constraints =
  horizontal :: string
  vertical :: string

record AbsoluteBoundingBox =
  box_x :: rat
  box_y :: rat
  width :: rat
  height :: rat

datatype NodeType =
    DOCUMENT | CANVAS | FRAME | GROUP | VECTOR | BOOLEAN_OPERATION | STAR | LINE
  | ELLIPSE | REGULAR_POLYGON | RECTANGLE | TEXT | SLICE | COMPONENT | COMPONENT_SET
  | INSTANCE

datatype LayoutMode = NONE | HORIZONTAL | VERTICAL

record NodeAttrs =
  node_id :: string
  node_name :: string
  node_type :: NodeType
  absoluteBoundingBox :: "AbsoluteBoundingBox option"
  constraints :: "Constraints option"
  layoutMode :: "LayoutMode option"
  itemSpacing :: "rat option"
  paddingLeft :: "rat option"
  paddingRight :: "rat option"
  paddingTop :: "rat option"
  paddingBottom :: "rat option"
  fills :: "Paint list option"
  strokes :: "Paint list option"
  strokeWeight :: "rat option"
  cornerRadius :: "rat option"
  backgroundColor :: "Color option"
  opacity :: "rat option"
  effects :: "Effect list option"
  characters :: "string option"
  style :: "TypeStyle option"
  componentId :: "string option"
  componentSetId :: "string option"

text \<open>\<open>FigmaNode\<close>: the attributes above and the optional, ordered list of child nodes.\<close>

datatype FigmaNode = FigmaNode (attrs: NodeAttrs) (children: "FigmaNode list option")

record FigmaComponent =
  comp_key :: string
  comp_name :: string

text \<open>
  \<open>FigmaApiResponse\<close>, with the fields the generators read: the document, the
  \<open>components\<close> table, kept as the list of its entries in the order \<open>Object.entries\<close>
  enumerates them (map key first, then the entry), and the file's \<open>name\<close>.
\<close>

record FigmaApiResponse =
  document :: FigmaNode
  components :: "(string \<times> FigmaComponent) list option"
  file_name :: "string option"

datatype IssueType = Issue_error | Issue_warning | Issue_info

record AccessibilityIssue =
  issue_type :: IssueType
  message :: string
  element :: string
  issue_fix :: string

datatype WcagLevel = WCAG_AA | WCAG_A | Non_compliant

record AccessibilityReport =
  score :: int
  issues :: "AccessibilityIssue list"
  suggestions :: "string list"
  wcagCompliance :: WcagLevel

record ResponsiveBreakpoints =
  mobile :: string
  tablet :: string
  desktop :: string
  hasResponsiveDesign :: bool

datatype ComponentType = CT_button | CT_card | CT_text | CT_input | CT_layout | CT_complex

datatype Complexity = Simple | Medium | Complex

record ComponentMetadata =
  figmaNodeId :: string
  componentType :: ComponentType
  complexity :: Complexity
  estimatedAccuracy :: int
  generationTime :: int
  dependencies :: "string list"

record GeneratedComponent =
  gc_id :: string
  gc_name :: string
  gc_jsx :: string
  gc_css :: string
  gc_typescript :: "string option"
  gc_accessibility :: AccessibilityReport
  gc_responsive :: ResponsiveBreakpoints
  gc_metadata :: ComponentMetadata

section \<open>Generator configuration (services/advanced-code-generator.ts)\<close>

datatype Framework = React | Vue | Html

datatype Styling = Tailwind | Css_modules | Styled_components | Plain_css

record CodeGenerationOptions =
  framework :: Framework
  styling :: Styling
  typescript :: bool
  opt_accessibility :: bool
  opt_responsive :: bool
  optimizeImages :: bool

record CustomCodeInputs =
  custom_jsx :: string
  custom_css :: string
  cssAdvanced :: string

section \<open>JavaScript primitives used by the generators\<close>

text \<open>Truthiness of an optional number: defined and not zero.\<close>

definition truthy_num :: "rat option \<Rightarrow> bool" where
  "truthy_num v = (case v of None \<Rightarrow> False | Some q \<Rightarrow> q \<noteq> 0)"

text \<open>Truthiness of a string: not empty.\<close>

definition truthy_str :: "string \<Rightarrow> bool" where
  "truthy_str s = (s \<noteq> [])"

text \<open>\<open>v || 0\<close> on an optional number.\<close>

definition num_or_zero :: "rat option \<Rightarrow> rat" where
  "num_or_zero v = (case v of None \<Rightarrow> 0 | Some q \<Rightarrow> q)"

text \<open>\<open>Math.round\<close>: the nearest integer, halves rounded up.\<close>

definition Math_round :: "rat \<Rightarrow> int" where
  "Math_round q = \<lfloor>q + 1 / 2\<rfloor>"

definition to_lower :: "char \<Rightarrow> char" where
  "to_lower c =
     (case map_of (zip ''ABCDEFGHIJKLMNOPQRSTUVWXYZ'' ''abcdefghijklmnopqrstuvwxyz'') c of
        Some d \<Rightarrow> d | None \<Rightarrow> c)"

definition to_upper :: "char \<Rightarrow> char" where
  "to_upper c =
     (case map_of (zip ''abcdefghijklmnopqrstuvwxyz'' ''ABCDEFGHIJKLMNOPQRSTUVWXYZ'') c of
        Some d \<Rightarrow> d | None \<Rightarrow> c)"

definition toLowerCase :: "string \<Rightarrow> string" where
  "toLowerCase s = map to_lower s"

text \<open>\<open>s.includes(sub)\<close>: \<open>sub\<close> occurs in \<open>s\<close> as a contiguous substring.\<close>

fun str_includes :: "string \<Rightarrow> string \<Rightarrow> bool" where
  "str_includes [] sub = (sub = [])"
| "str_includes (c # cs) sub = (prefix sub (c # cs) \<or> str_includes cs sub)"

text \<open>The child list of a node, \<open>undefined\<close> read as no children (\<open>node.children && ...\<close>).\<close>

definition child_list :: "FigmaNode \<Rightarrow> FigmaNode list" where
  "child_list node = (case children node of None \<Rightarrow> [] | Some cs \<Rightarrow> cs)"

section \<open>Heuristic analysers of \<open>AdvancedCodeGenerator\<close>\<close>

definition isImage :: "FigmaNode \<Rightarrow> bool" where
  "isImage node =
     (case fills (attrs node) of
        None \<Rightarrow> False
      | Some fs \<Rightarrow> list_ex (\<lambda>fill. paint_type fill = ''IMAGE'') fs)"

definition isInteractiveElement :: "FigmaNode \<Rightarrow> bool" where
  "isInteractiveElement node =
     (let name = toLowerCase (node_name (attrs node))
      in str_includes name ''button'' \<or> str_includes name ''link'' \<or>
         str_includes name ''input'' \<or> str_includes name ''click'')"

definition isHeading :: "FigmaNode \<Rightarrow> bool" where
  "isHeading node =
     (if node_type (attrs node) \<noteq> TEXT then False
      else
        (let name = toLowerCase (node_name (attrs node))
         in str_includes name ''title'' \<or> str_includes name ''heading'' \<or>
            str_includes name ''header'' \<or>
            (case style (attrs node) of
               None \<Rightarrow> False
             | Some st \<Rightarrow> fontSize st \<noteq> 0 \<and> fontSize st > 20)))"

text \<open>The contrast ratio is a placeholder: the constant 4.5 for every node.\<close>

definition calculateContrastRatio :: "FigmaNode \<Rightarrow> rat" where
  "calculateContrastRatio node = 45 / 10"

definition msg_missing_alt :: string where
  "msg_missing_alt = ''K'' @ [CHR 0xC3, CHR 0xA9] @ ''p hi'' @ [CHR 0xC3, CHR 0xA1] @ ''nyz'' @ [CHR 0xC3, CHR 0xB3] @ '' alt sz'' @ [CHR 0xC3, CHR 0xB6] @ ''veg''"

definition fix_missing_alt :: string where
  "fix_missing_alt = ''Adj hozz'' @ [CHR 0xC3, CHR 0xA1] @ '' alt attrib'' @ [CHR 0xC3, CHR 0xBA] @ ''tumot le'' @ [CHR 0xC3, CHR 0xAD] @ ''r'' @ [CHR 0xC3, CHR 0xB3] @ '' sz'' @ [CHR 0xC3, CHR 0xB6] @ ''veggel''"

definition msg_low_contrast :: string where
  "msg_low_contrast = ''Alacsony sz'' @ [CHR 0xC3, CHR 0xB6] @ ''veg kontraszt''"

definition fix_low_contrast :: string where
  "fix_low_contrast = ''N'' @ [CHR 0xC3, CHR 0xB6] @ ''veld a sz'' @ [CHR 0xC3, CHR 0xB6] @ ''veg '' @ [CHR 0xC3, CHR 0xA9] @ ''s h'' @ [CHR 0xC3, CHR 0xA1] @ ''tt'' @ [CHR 0xC3, CHR 0xA9] @ ''r k'' @ [CHR 0xC3, CHR 0xB6] @ ''z'' @ [CHR 0xC3, CHR 0xB6] @ ''tti kontrasztot''"

definition sugg_keyboard :: string where
  "sugg_keyboard = ''Biztos'' @ [CHR 0xC3, CHR 0xAD] @ ''tsd a billenty'' @ [CHR 0xC5, CHR 0xB1] @ ''zetes navig'' @ [CHR 0xC3, CHR 0xA1] @ ''ci'' @ [CHR 0xC3, CHR 0xB3] @ '' t'' @ [CHR 0xC3, CHR 0xA1] @ ''mogat'' @ [CHR 0xC3, CHR 0xA1] @ ''s'' @ [CHR 0xC3, CHR 0xA1] @ ''t''"

definition sugg_aria :: string where
  "sugg_aria = ''Adj hozz'' @ [CHR 0xC3, CHR 0xA1] @ '' ARIA c'' @ [CHR 0xC3, CHR 0xAD] @ ''mk'' @ [CHR 0xC3, CHR 0xA9] @ ''ket a k'' @ [CHR 0xC3, CHR 0xA9] @ ''perny'' @ [CHR 0xC5, CHR 0x91] @ ''olvas'' @ [CHR 0xC3, CHR 0xB3] @ ''khoz''"

definition sugg_focus :: string where
  "sugg_focus = ''Haszn'' @ [CHR 0xC3, CHR 0xA1] @ ''lj megfelel'' @ [CHR 0xC5, CHR 0x91] @ '' focus '' @ [CHR 0xC3, CHR 0xA1] @ ''llapotokat''"

definition sugg_heading :: string where
  "sugg_heading = ''Ellen'' @ [CHR 0xC5, CHR 0x91] @ ''rizd a c'' @ [CHR 0xC3, CHR 0xAD] @ ''msor hierarchi'' @ [CHR 0xC3, CHR 0xA1] @ ''t (h1, h2, h3...)''"

definition sugg_custom_check :: string where
  "sugg_custom_check = ''Ellen'' @ [CHR 0xC5, CHR 0x91] @ ''rizd az egy'' @ [CHR 0xC3, CHR 0xA9] @ ''ni k'' @ [CHR 0xC3, CHR 0xB3] @ ''d accessibility megfelel'' @ [CHR 0xC5, CHR 0x91] @ ''s'' @ [CHR 0xC3, CHR 0xA9] @ ''g'' @ [CHR 0xC3, CHR 0xA9] @ ''t''"

definition sugg_custom_test :: string where
  "sugg_custom_test = ''Teszteld a komponenst k'' @ [CHR 0xC3, CHR 0xA9] @ ''perny'' @ [CHR 0xC5, CHR 0x91] @ ''olvas'' @ [CHR 0xC3, CHR 0xB3] @ ''val''"

definition missing_alt_issue :: "FigmaNode \<Rightarrow> AccessibilityIssue" where
  "missing_alt_issue node =
     \<lparr>issue_type = Issue_error, message = msg_missing_alt,
      element = node_name (attrs node), issue_fix = fix_missing_alt\<rparr>"

definition low_contrast_issue :: "FigmaNode \<Rightarrow> AccessibilityIssue" where
  "low_contrast_issue node =
     \<lparr>issue_type = Issue_warning, message = msg_low_contrast,
      element = node_name (attrs node), issue_fix = fix_low_contrast\<rparr>"

text \<open>
  \<open>analyzeAccessibility\<close>: the running \<open>score\<close>, \<open>issues\<close> and \<open>suggestions\<close> of the source
  are threaded through the five checks in their order; the returned score is
  \<open>Math.max(0, score)\<close> and the level is read off the running score.
\<close>

definition analyzeAccessibility :: "CustomCodeInputs \<Rightarrow> FigmaNode \<Rightarrow> AccessibilityReport" where
  "analyzeAccessibility customCode node =
     (let (issues1, score1) =
            (if isImage node then ([missing_alt_issue node], 100 - 15) else ([], 100));
          (issues2, score2) =
            (if node_type (attrs node) = TEXT \<and> calculateContrastRatio node < 45 / 10
             then (issues1 @ [low_contrast_issue node], score1 - 10)
             else (issues1, score1));
          sugg1 = (if isInteractiveElement node
                   then [sugg_keyboard, sugg_aria, sugg_focus] else []);
          sugg2 = (if isHeading node then sugg1 @ [sugg_heading] else sugg1);
          sugg3 = (if truthy_str (custom_jsx customCode) \<or> truthy_str (custom_css customCode)
                   then sugg2 @ [sugg_custom_check, sugg_custom_test] else sugg2)
      in \<lparr>score = max 0 score2, issues = issues2, suggestions = sugg3,
          wcagCompliance =
            (if score2 \<ge> 80 then WCAG_AA else if score2 \<ge> 60 then WCAG_A else Non_compliant)\<rparr>)"

text \<open>The level as the specification words it: a function of the reported score alone.\<close>

definition spec_wcagLevel :: "int \<Rightarrow> WcagLevel" where
  "spec_wcagLevel s = (if s \<ge> 80 then WCAG_AA else if s \<ge> 60 then WCAG_A else Non_compliant)"

definition generateResponsiveCSS :: "FigmaNode \<Rightarrow> string \<Rightarrow> string" where
  "generateResponsiveCSS node breakpoint = ''/* '' @ breakpoint @ '' responsive styles */''"

text \<open>
  \<open>analyzeResponsive\<close>: \<open>node.constraints?.horizontal !== 'LEFT'\<close> compares \<open>undefined\<close> with
  \<open>'LEFT'\<close> when the node has no constraints, which is \<open>true\<close>.
\<close>

definition analyzeResponsive :: "FigmaNode \<Rightarrow> ResponsiveBreakpoints" where
  "analyzeResponsive node =
     (let hasFlexLayout = (layoutMode (attrs node) = Some HORIZONTAL \<or>
                           layoutMode (attrs node) = Some VERTICAL);
          hasConstraints = (map_option horizontal (constraints (attrs node)) \<noteq> Some ''LEFT'' \<or>
                            map_option vertical (constraints (attrs node)) \<noteq> Some ''TOP'');
          hasResponsiveDesign = (hasFlexLayout \<or> hasConstraints)
      in \<lparr>mobile = generateResponsiveCSS node ''mobile'',
          tablet = generateResponsiveCSS node ''tablet'',
          desktop = generateResponsiveCSS node ''desktop'',
          hasResponsiveDesign = hasResponsiveDesign\<rparr>)"

definition detectComponentType :: "FigmaNode \<Rightarrow> ComponentType" where
  "detectComponentType node =
     (let name = toLowerCase (node_name (attrs node))
      in if str_includes name ''button'' then CT_button
         else if str_includes name ''card'' then CT_card
         else if str_includes name ''text'' \<or> node_type (attrs node) = TEXT then CT_text
         else if str_includes name ''input'' then CT_input
         else if length (child_list node) > 3 then CT_layout
         else CT_complex)"

definition has_custom_code :: "CustomCodeInputs \<Rightarrow> bool" where
  "has_custom_code customCode =
     (truthy_str (custom_jsx customCode) \<or> truthy_str (custom_css customCode) \<or>
      truthy_str (cssAdvanced customCode))"

definition complexity_sum :: "CustomCodeInputs \<Rightarrow> FigmaNode \<Rightarrow> nat" where
  "complexity_sum customCode node =
     length (child_list node)
     + (case effects (attrs node) of
          None \<Rightarrow> 0 | Some es \<Rightarrow> if length es > 0 then 2 else 0)
     + (case fills (attrs node) of
          None \<Rightarrow> 0 | Some fs \<Rightarrow> if length fs > 1 then 1 else 0)
     + (if has_custom_code customCode then 1 else 0)"

definition calculateComplexity :: "CustomCodeInputs \<Rightarrow> FigmaNode \<Rightarrow> Complexity" where
  "calculateComplexity customCode node =
     (let complexity = complexity_sum customCode node
      in if complexity \<le> 3 then Simple else if complexity \<le> 8 then Medium else Complex)"

definition estimateAccuracy :: "CustomCodeInputs \<Rightarrow> FigmaNode \<Rightarrow> int" where
  "estimateAccuracy customCode node =
     (let accuracy0 = 85;
          accuracy1 = (if calculateComplexity customCode node = Simple
                       then accuracy0 + 10 else accuracy0);
          accuracy2 = (if length (child_list node) > 5 then accuracy1 - 5 else accuracy1);
          componentType = detectComponentType node;
          accuracy3 = (if componentType \<in> set [CT_button, CT_text, CT_card]
                       then accuracy2 + 5 else accuracy2);
          accuracy4 = (if has_custom_code customCode then accuracy3 + 5 else accuracy3)
      in min 100 (max 70 accuracy4))"

text \<open>
  The complexity bucket and the accuracy estimate as the specification words them:
  one point per child, two if any effect is present, one if there is more than one fill;
  base 85, plus 10 if simple, minus 5 for more than five children, plus 5 for a button,
  text or card, clamped to the range 70..100.
\<close>

definition spec_complexity :: "FigmaNode \<Rightarrow> Complexity" where
  "spec_complexity node =
     (let w = length (child_list node)
              + (if effects (attrs node) \<noteq> None \<and> effects (attrs node) \<noteq> Some [] then 2 else 0)
              + (if length (case fills (attrs node) of None \<Rightarrow> [] | Some fs \<Rightarrow> fs) > 1
                 then 1 else 0)
      in if w \<le> 3 then Simple else if w \<le> 8 then Medium else Complex)"

definition spec_estimatedAccuracy :: "FigmaNode \<Rightarrow> int" where
  "spec_estimatedAccuracy node =
     min 100 (max 70
       (85 + (if spec_complexity node = Simple then 10 else 0)
           - (if length (child_list node) > 5 then 5 else 0)
           + (if detectComponentType node = CT_button \<or> detectComponentType node = CT_text \<or>
                 detectComponentType node = CT_card then 5 else 0)))"

text \<open>A node with default attributes, used to write concrete documents.\<close>

definition default_attrs :: NodeAttrs where
  "default_attrs =
     \<lparr>node_id = ''0:0'', node_name = ''Node'', node_type = RECTANGLE,
      absoluteBoundingBox = None, constraints = None, layoutMode = None,
      itemSpacing = None, paddingLeft = None, paddingRight = None, paddingTop = None,
      paddingBottom = None, fills = None, strokes = None, strokeWeight = None,
      cornerRadius = None, backgroundColor = None, opacity = None, effects = None,
      characters = None, style = None, componentId = None, componentSetId = None\<rparr>"

definition no_custom_code :: CustomCodeInputs where
  "no_custom_code = \<lparr>custom_jsx = [], custom_css = [], cssAdvanced = []\<rparr>"


section \<open>Rendering numbers and joining strings\<close>

definition digit_char :: "nat \<Rightarrow> char" where
  "digit_char d = ''0123456789'' ! (d mod 10)"

function show_nat :: "nat \<Rightarrow> string" where
  "show_nat n =
     (if n < 10 then [digit_char n] else show_nat (n div 10) @ [digit_char (n mod 10)])"
  by pat_completeness auto
termination
  by (relation "measure id") auto

declare show_nat.simps [simp del]

definition show_int :: "int \<Rightarrow> string" where
  "show_int i = (if i < 0 then ''-'' @ show_nat (nat (- i)) else show_nat (nat i))"

fun frac_digits :: "nat \<Rightarrow> rat \<Rightarrow> string" where
  "frac_digits 0 x = []"
| "frac_digits (Suc n) x =
     (if x = 0 then []
      else (let d = \<lfloor>x * 10\<rfloor> in digit_char (nat d) # frac_digits n (x * 10 - of_int d)))"

text \<open>
  \<open>Number_toString\<close>: what a template literal prints for a number.  It is the decimal
  numeral of an integer of magnitude below \<open>10^21\<close> and the finite decimal expansion of a
  decimal fraction of magnitude at least \<open>10^-6\<close> with at most 20 fractional digits, as
  JavaScript prints them.  Outside this range JavaScript prints an exponent form
  (\<open>1e-7\<close>, \<open>1e+21\<close>) or the shortest digits of the double; the model prints the
  positional expansion there, cut after 20 fractional digits.
\<close>

definition Number_toString :: "rat \<Rightarrow> string" where
  "Number_toString q =
     (let i = \<lfloor>\<bar>q\<bar>\<rfloor>; f = \<bar>q\<bar> - of_int i
      in (if q < 0 then ''-'' else []) @ show_nat (nat i) @
         (if f = 0 then [] else ''.'' @ frac_digits 20 f))"

text \<open>An optional number inside a template literal: \<open>undefined\<close> prints as that word.\<close>

definition opt_Number_toString :: "rat option \<Rightarrow> string" where
  "opt_Number_toString v = (case v of None \<Rightarrow> ''undefined'' | Some q \<Rightarrow> Number_toString q)"

fun str_join :: "string \<Rightarrow> string list \<Rightarrow> string" where
  "str_join sep [] = []"
| "str_join sep [x] = x"
| "str_join sep (x # y # ys) = x @ sep @ str_join sep (y # ys)"

definition is_digit :: "char \<Rightarrow> bool" where
  "is_digit c = (c \<in> set ''0123456789'')"

definition is_lower :: "char \<Rightarrow> bool" where
  "is_lower c = (c \<in> set ''abcdefghijklmnopqrstuvwxyz'')"

definition is_upper :: "char \<Rightarrow> bool" where
  "is_upper c = (c \<in> set ''ABCDEFGHIJKLMNOPQRSTUVWXYZ'')"

definition is_alnum :: "char \<Rightarrow> bool" where
  "is_alnum c = (is_lower c \<or> is_upper c \<or> is_digit c)"

text \<open>The ASCII characters matched by \<open>\s\<close>: tab, line feed, vertical tab, form feed,
  carriage return and space.\<close>

definition is_space :: "char \<Rightarrow> bool" where
  "is_space c = (c \<in> set [CHR 0x09, CHR 0x0A, CHR 0x0B, CHR 0x0C, CHR 0x0D, CHR 0x20])"

section \<open>Style extraction of \<open>AdvancedCodeGenerator\<close>\<close>

text \<open>
  A style object is the list of its entries in insertion order; assigning to a key that
  is present replaces the value in place, as a JavaScript object does.
\<close>

datatype StyleValue = SV_str string | SV_num rat

definition sv_toString :: "StyleValue \<Rightarrow> string" where
  "sv_toString v = (case v of SV_str s \<Rightarrow> s | SV_num q \<Rightarrow> Number_toString q)"

fun obj_set :: "string \<Rightarrow> 'v \<Rightarrow> (string \<times> 'v) list \<Rightarrow> (string \<times> 'v) list" where
  "obj_set k v [] = [(k, v)]"
| "obj_set k v ((k', v') # kvs) =
     (if k' = k then (k, v) # kvs else (k', v') # obj_set k v kvs)"

definition colorToCSS :: "Color \<Rightarrow> rat option \<Rightarrow> string" where
  "colorToCSS color opacity' =
     (let alpha = (case opacity' of
                     Some op \<Rightarrow> op
                   | None \<Rightarrow> (case color_a color of Some al \<Rightarrow> al | None \<Rightarrow> 1))
      in ''rgba('' @ show_int (Math_round (color_r color * 255)) @ '', '' @
         show_int (Math_round (color_g color * 255)) @ '', '' @
         show_int (Math_round (color_b color * 255)) @ '', '' @
         Number_toString alpha @ '')'')"

definition gradientToCSS :: "Paint \<Rightarrow> string" where
  "gradientToCSS fill = ''linear-gradient(90deg, #000 0%, #fff 100%)''"

definition effectToCSS :: "Effect \<Rightarrow> string" where
  "effectToCSS effect =
     (if effect_type effect = ''DROP_SHADOW'' then
        (let x = (case offset effect of None \<Rightarrow> 0 | Some (ox, oy) \<Rightarrow> ox);
             y = (case offset effect of None \<Rightarrow> 0 | Some (ox, oy) \<Rightarrow> oy);
             blur = num_or_zero (radius effect);
             colorCSS = (case effect_color effect of
                           Some c \<Rightarrow> colorToCSS c None
                         | None \<Rightarrow> ''rgba(0,0,0,0.25)'')
         in Number_toString x @ ''px '' @ Number_toString y @ ''px '' @
            Number_toString blur @ ''px '' @ colorCSS)
      else [])"

type_synonym Styles = "(string \<times> StyleValue) list"

definition style_box :: "NodeAttrs \<Rightarrow> Styles \<Rightarrow> Styles" where
  "style_box a styles =
     (case absoluteBoundingBox a of
        None \<Rightarrow> styles
      | Some bb \<Rightarrow>
          obj_set ''height'' (SV_str (Number_toString (height bb) @ ''px''))
            (obj_set ''width'' (SV_str (Number_toString (width bb) @ ''px'')) styles))"

definition style_flex :: "NodeAttrs \<Rightarrow> Styles \<Rightarrow> Styles" where
  "style_flex a styles =
     (case layoutMode a of
        None \<Rightarrow> styles
      | Some m \<Rightarrow>
          (let s1 = obj_set ''display'' (SV_str ''flex'') styles;
               s2 = obj_set ''flexDirection''
                      (SV_str (if m = HORIZONTAL then ''row'' else ''column'')) s1
           in if truthy_num (itemSpacing a)
              then obj_set ''gap'' (SV_str (opt_Number_toString (itemSpacing a) @ ''px'')) s2
              else s2))"

definition style_padding :: "NodeAttrs \<Rightarrow> Styles \<Rightarrow> Styles" where
  "style_padding a styles =
     (if truthy_num (paddingLeft a) \<or> truthy_num (paddingRight a) \<or>
         truthy_num (paddingTop a) \<or> truthy_num (paddingBottom a)
      then obj_set ''padding''
             (SV_str (Number_toString (num_or_zero (paddingTop a)) @ ''px '' @
                      Number_toString (num_or_zero (paddingRight a)) @ ''px '' @
                      Number_toString (num_or_zero (paddingBottom a)) @ ''px '' @
                      Number_toString (num_or_zero (paddingLeft a)) @ ''px'')) styles
      else styles)"

definition style_backgroundColor :: "NodeAttrs \<Rightarrow> Styles \<Rightarrow> Styles" where
  "style_backgroundColor a styles =
     (case backgroundColor a of
        None \<Rightarrow> styles
      | Some c \<Rightarrow> obj_set ''backgroundColor'' (SV_str (colorToCSS c None)) styles)"

definition style_fill :: "NodeAttrs \<Rightarrow> Styles \<Rightarrow> Styles" where
  "style_fill a styles =
     (case fills a of
        None \<Rightarrow> styles
      | Some [] \<Rightarrow> styles
      | Some (fill # rest) \<Rightarrow>
          (case (if paint_type fill = ''SOLID'' then paint_color fill else None) of
             Some c \<Rightarrow>
               obj_set ''backgroundColor'' (SV_str (colorToCSS c (paint_opacity fill))) styles
           | None \<Rightarrow>
               (if paint_type fill = ''GRADIENT_LINEAR''
                then obj_set ''background'' (SV_str (gradientToCSS fill)) styles
                else styles)))"

definition style_radius :: "NodeAttrs \<Rightarrow> Styles \<Rightarrow> Styles" where
  "style_radius a styles =
     (if truthy_num (cornerRadius a)
      then obj_set ''borderRadius'' (SV_str (opt_Number_toString (cornerRadius a) @ ''px'')) styles
      else styles)"

definition style_border :: "NodeAttrs \<Rightarrow> Styles \<Rightarrow> Styles" where
  "style_border a styles =
     (case strokes a of
        None \<Rightarrow> styles
      | Some [] \<Rightarrow> styles
      | Some (stroke # rest) \<Rightarrow>
          (if truthy_num (strokeWeight a) then
             (case paint_color stroke of
                None \<Rightarrow> styles
              | Some c \<Rightarrow>
                  obj_set ''border''
                    (SV_str (opt_Number_toString (strokeWeight a) @ ''px solid '' @
                             colorToCSS c (paint_opacity stroke))) styles)
           else styles))"

definition style_text :: "NodeAttrs \<Rightarrow> Styles \<Rightarrow> Styles" where
  "style_text a styles =
     (if node_type a = TEXT then
        (case style a of
           None \<Rightarrow> styles
         | Some st \<Rightarrow>
             (let s1 = obj_set ''fontFamily''
                         (SV_str ([CHR 0x22] @ fontFamily st @ ([CHR 0x22] @ '', sans-serif''))) styles;
                  s2 = obj_set ''fontSize'' (SV_str (Number_toString (fontSize st) @ ''px'')) s1;
                  s3 = obj_set ''lineHeight''
                         (SV_str (opt_Number_toString (lineHeightPx st) @ ''px'')) s2;
                  s4 = obj_set ''letterSpacing''
                         (SV_str (opt_Number_toString (letterSpacing st) @ ''px'')) s3
              in (case style_fills st of
                    None \<Rightarrow> s4
                  | Some [] \<Rightarrow> s4
                  | Some (textFill # rest) \<Rightarrow>
                      (case paint_color textFill of
                         None \<Rightarrow> s4
                       | Some c \<Rightarrow>
                           obj_set ''color''
                             (SV_str (colorToCSS c (paint_opacity textFill))) s4))))
      else styles)"

definition style_opacity :: "NodeAttrs \<Rightarrow> Styles \<Rightarrow> Styles" where
  "style_opacity a styles =
     (case opacity a of
        None \<Rightarrow> styles
      | Some op \<Rightarrow> if op \<noteq> 1 then obj_set ''opacity'' (SV_num op) styles else styles)"

definition style_shadow :: "NodeAttrs \<Rightarrow> Styles \<Rightarrow> Styles" where
  "style_shadow a styles =
     (case effects a of
        None \<Rightarrow> styles
      | Some es \<Rightarrow>
          (let shadows = map effectToCSS
                 (filter (\<lambda>effect. effect_type effect = ''DROP_SHADOW'' \<and>
                                     visible effect \<noteq> Some False) es)
           in if length shadows > 0
              then obj_set ''boxShadow'' (SV_str (str_join '', '' shadows)) styles
              else styles))"

text \<open>\<open>extractAllStyles\<close>: the eleven blocks of the source, applied in their order to the
  empty style object.\<close>

definition extractAllStyles :: "FigmaNode \<Rightarrow> Styles" where
  "extractAllStyles node =
     (let a = attrs node
      in style_shadow a (style_opacity a (style_text a (style_border a (style_radius a
           (style_fill a (style_backgroundColor a (style_padding a (style_flex a
             (style_box a [])))))))))) "

text \<open>
  \<open>camelToKebab\<close>: the pattern \<open>([a-z0-9]|(?=[A-Z]))([A-Z])\<close> matches every capital letter,
  together with a lower-case letter or digit before it when there is one, and the
  replacement puts a hyphen before the capital; the result is lower-cased.
\<close>

definition camelToKebab :: "string \<Rightarrow> string" where
  "camelToKebab str =
     toLowerCase (concat (map (\<lambda>c. if is_upper c then [CHR ''-'', c] else [c]) str))"

text \<open>One declaration line of \<open>convertToCSSRules\<close>, for one entry of the style object.\<close>

definition css_declaration :: "string \<times> StyleValue \<Rightarrow> string" where
  "css_declaration entry =
     ''  '' @ camelToKebab (fst entry) @ '': '' @ sv_toString (snd entry) @ '';''"

definition convertToCSSRules :: "Styles \<Rightarrow> string \<Rightarrow> string" where
  "convertToCSSRules styles componentName =
     (let cssRules = str_join ''\<newline>'' (map css_declaration styles)
      in ''.'' @ toLowerCase componentName @ '' {\<newline>'' @ cssRules @ ''\<newline>}'')"

definition generateCSSModules :: "string \<Rightarrow> string" where
  "generateCSSModules cssRules = cssRules"

definition generatePlainCSS :: "string \<Rightarrow> string \<Rightarrow> string" where
  "generatePlainCSS cssRules componentName = cssRules"

text \<open>\<open>replace(/^\.[^{]+\{/, '')\<close>: a leading dot, at least one character other than an
  opening brace and the first opening brace are removed, when the string starts so.\<close>

definition strip_selector :: "string \<Rightarrow> string" where
  "strip_selector s =
     (case s of
        [] \<Rightarrow> s
      | c # rest \<Rightarrow>
          (if c = CHR ''.'' \<and> takeWhile (\<lambda>d. d \<noteq> CHR ''{'') rest \<noteq> [] \<and>
              dropWhile (\<lambda>d. d \<noteq> CHR ''{'') rest \<noteq> []
           then tl (dropWhile (\<lambda>d. d \<noteq> CHR ''{'') rest) else s))"

text \<open>\<open>replace(/\}$/, '')\<close>: a closing brace at the very end is removed.\<close>

definition strip_closing :: "string \<Rightarrow> string" where
  "strip_closing s = (if s \<noteq> [] \<and> last s = CHR ''}'' then butlast s else s)"

definition generateStyledComponents :: "string \<Rightarrow> string \<Rightarrow> string" where
  "generateStyledComponents cssRules componentName =
     (''import styled from '' @ [CHR 0x27] @ ''styled-components'' @ [CHR 0x27] @ '';\<newline>\<newline>export const Styled'') @ componentName @
     ('' = styled.div'' @ [CHR 0x60] @ ''\<newline>'') @ strip_closing (strip_selector cssRules) @ (''\<newline>'' @ [CHR 0x60] @ '';'')"

section \<open>Utility classes of \<open>AdvancedCodeGenerator\<close>\<close>

definition pxToTailwindSpacing :: "rat \<Rightarrow> string" where
  "pxToTailwindSpacing px =
     (let spacing = Math_round (px / 4)
      in if spacing \<le> 0 then ''0''
         else if spacing \<le> 96 then show_int spacing
         else ''['' @ Number_toString px @ ''px]'')"

definition colorToTailwind :: "Color \<Rightarrow> string" where
  "colorToTailwind color =
     (let r = color_r color; g = color_g color; b = color_b color
      in if r > 9 / 10 \<and> g > 9 / 10 \<and> b > 9 / 10 then ''bg-white''
         else if r < 1 / 10 \<and> g < 1 / 10 \<and> b < 1 / 10 then ''bg-black''
         else if r > 8 / 10 \<and> g < 3 / 10 \<and> b < 3 / 10 then ''bg-red-500''
         else if r < 3 / 10 \<and> g > 8 / 10 \<and> b < 3 / 10 then ''bg-green-500''
         else if r < 3 / 10 \<and> g < 3 / 10 \<and> b > 8 / 10 then ''bg-blue-500''
         else ''bg-gray-500'')"

definition borderRadiusToTailwind :: "rat \<Rightarrow> string" where
  "borderRadiusToTailwind radius' =
     (if radius' \<le> 2 then ''rounded-sm''
      else if radius' \<le> 4 then ''rounded''
      else if radius' \<le> 6 then ''rounded-md''
      else if radius' \<le> 8 then ''rounded-lg''
      else if radius' \<le> 12 then ''rounded-xl''
      else if radius' \<le> 16 then ''rounded-2xl''
      else ''rounded-['' @ Number_toString radius' @ ''px]'')"

definition fontSizeToTailwind :: "rat \<Rightarrow> string" where
  "fontSizeToTailwind fs =
     (if fs \<le> 12 then ''text-xs''
      else if fs \<le> 14 then ''text-sm''
      else if fs \<le> 16 then ''text-base''
      else if fs \<le> 18 then ''text-lg''
      else if fs \<le> 20 then ''text-xl''
      else if fs \<le> 24 then ''text-2xl''
      else if fs \<le> 30 then ''text-3xl''
      else ''text-['' @ Number_toString fs @ ''px]'')"

definition generateTailwindClasses :: "FigmaNode \<Rightarrow> string" where
  "generateTailwindClasses node =
     (let a = attrs node;
          layout = (if layoutMode a = Some HORIZONTAL then [''flex'', ''flex-row'']
                    else if layoutMode a = Some VERTICAL then [''flex'', ''flex-col''] else []);
          spacing = (if truthy_num (itemSpacing a)
                     then [''gap-'' @ pxToTailwindSpacing (num_or_zero (itemSpacing a))] else []);
          pl = (if truthy_num (paddingLeft a)
                then [''pl-'' @ pxToTailwindSpacing (num_or_zero (paddingLeft a))] else []);
          pr = (if truthy_num (paddingRight a)
                then [''pr-'' @ pxToTailwindSpacing (num_or_zero (paddingRight a))] else []);
          pt = (if truthy_num (paddingTop a)
                then [''pt-'' @ pxToTailwindSpacing (num_or_zero (paddingTop a))] else []);
          pb = (if truthy_num (paddingBottom a)
                then [''pb-'' @ pxToTailwindSpacing (num_or_zero (paddingBottom a))] else []);
          sizes = (case absoluteBoundingBox a of
                     None \<Rightarrow> []
                   | Some bb \<Rightarrow> [''w-['' @ Number_toString (width bb) @ ''px]'',
                                 ''h-['' @ Number_toString (height bb) @ ''px]'']);
          bg = (case backgroundColor a of None \<Rightarrow> [] | Some c \<Rightarrow> [colorToTailwind c]);
          rad = (if truthy_num (cornerRadius a)
                 then [borderRadiusToTailwind (num_or_zero (cornerRadius a))] else []);
          txt = (if node_type a = TEXT then
                   (case style a of
                      None \<Rightarrow> []
                    | Some st \<Rightarrow> if fontSize st \<noteq> 0 then [fontSizeToTailwind (fontSize st)] else [])
                 else [])
      in str_join '' '' (layout @ spacing @ pl @ pr @ pt @ pb @ sizes @ bg @ rad @ txt))"

text \<open>
  \<open>sanitizeComponentName\<close>: every character that is not an ASCII letter or digit is
  removed, a leading digit gets the prefix \<open>Component\<close>, the first character is
  upper-cased, and the empty result is replaced by \<open>Component\<close>.
\<close>

definition sanitizeComponentName :: "string \<Rightarrow> string" where
  "sanitizeComponentName name =
     (let s1 = filter is_alnum name;
          s2 = (case s1 of [] \<Rightarrow> [] | c # cs \<Rightarrow> if is_digit c then ''Component'' @ s1 else s1);
          s3 = (case s2 of [] \<Rightarrow> [] | c # cs \<Rightarrow> to_upper c # cs)
      in if truthy_str s3 then s3 else ''Component'')"

definition generateTailwindCSS :: "FigmaNode \<Rightarrow> string" where
  "generateTailwindCSS node =
     (let classes = generateTailwindClasses node
      in (''/* Figma alap'' @ [CHR 0xC3, CHR 0xBA] @ '' Tailwind oszt'' @ [CHR 0xC3, CHR 0xA1] @ ''lyok: '') @ classes @
         ('' */\<newline>\<newline>/* Komponens alapst'' @ [CHR 0xC3, CHR 0xAD] @ ''lusok */\<newline>.'') @
         toLowerCase (sanitizeComponentName (node_name (attrs node))) @
         '' {\<newline>  @apply '' @ classes @ '';\<newline>}'')"

text \<open>\<open>generateCSS\<close> of the class: the dialect's base text, then the custom CSS section,
  then the advanced CSS section.\<close>

definition generateCSS :: "CodeGenerationOptions \<Rightarrow> CustomCodeInputs \<Rightarrow> FigmaNode \<Rightarrow> string \<Rightarrow> string" where
  "generateCSS opts customCode node componentName =
     (let baseCSS =
            (if styling opts = Tailwind then generateTailwindCSS node
             else
               (let styles = extractAllStyles node;
                    cssRules = convertToCSSRules styles componentName
                in if styling opts = Css_modules then generateCSSModules cssRules
                   else if styling opts = Styled_components
                   then generateStyledComponents cssRules componentName
                   else generatePlainCSS cssRules componentName));
          customCSSSection =
            (if truthy_str (custom_css customCode)
             then (''\<newline>\<newline>/* === EGY'' @ [CHR 0xC3, CHR 0x89] @ ''NI CSS ST'' @ [CHR 0xC3, CHR 0x8D] @ ''LUSOK === */\<newline>'') @ custom_css customCode @
                  (''\<newline>/* === EGY'' @ [CHR 0xC3, CHR 0x89] @ ''NI CSS ST'' @ [CHR 0xC3, CHR 0x8D] @ ''LUSOK V'' @ [CHR 0xC3, CHR 0x89] @ ''GE === */'')
             else []);
          advancedCSSSection =
            (if truthy_str (cssAdvanced customCode)
             then (''\<newline>\<newline>/* === FEJLETT CSS++ FUNKCI'' @ [CHR 0xC3, CHR 0x93] @ ''K === */\<newline>'') @ cssAdvanced customCode @
                  (''\<newline>/* === FEJLETT CSS++ FUNKCI'' @ [CHR 0xC3, CHR 0x93] @ ''K V'' @ [CHR 0xC3, CHR 0x89] @ ''GE === */'')
             else [])
      in baseCSS @ customCSSSection @ advancedCSSSection)"


section \<open>Markup synthesis of \<open>AdvancedCodeGenerator\<close>\<close>

text \<open>Truthiness of an optional string: defined and not empty.\<close>

definition truthy_opt_str :: "string option \<Rightarrow> bool" where
  "truthy_opt_str v = (case v of None \<Rightarrow> False | Some s \<Rightarrow> s \<noteq> [])"

record Prop =
  prop_name :: string
  prop_type :: string
  prop_optional :: bool

definition extractProps :: "FigmaNode \<Rightarrow> Prop list" where
  "extractProps node =
     (if node_type (attrs node) = TEXT \<and> truthy_opt_str (characters (attrs node))
      then [\<lparr>prop_name = ''children'', prop_type = ''React.ReactNode'', prop_optional = True\<rparr>]
      else []) @
     (if isImage node
      then [\<lparr>prop_name = ''src'', prop_type = ''string'', prop_optional = False\<rparr>,
            \<lparr>prop_name = ''alt'', prop_type = ''string'', prop_optional = False\<rparr>]
      else []) @
     [\<lparr>prop_name = ''className'', prop_type = ''string'', prop_optional = True\<rparr>]"

definition prop_line :: "Prop \<Rightarrow> string" where
  "prop_line p =
     prop_name p @ (if prop_optional p then ''?'' else []) @ '': '' @ prop_type p @ '';''"

definition generatePropsInterface :: "Prop list \<Rightarrow> string \<Rightarrow> string" where
  "generatePropsInterface props componentName =
     (if length props = 0 then []
      else ''interface '' @ componentName @ ''Props {\<newline>  '' @
           str_join ''\<newline>  '' (map prop_line props) @ ''\<newline>}\<newline>\<newline>'')"

definition generateTypeScript :: "FigmaNode \<Rightarrow> string \<Rightarrow> string" where
  "generateTypeScript node componentName =
     (let props = extractProps node
      in ''export interface '' @ componentName @ ''Props {\<newline>  '' @
         str_join ''\<newline>  '' (map prop_line props) @
         ''\<newline>}\<newline>\<newline>export type '' @ componentName @ ''Ref = HTMLDivElement;'')"

definition generateImports :: "CodeGenerationOptions \<Rightarrow> FigmaNode \<Rightarrow> string" where
  "generateImports opts node =
     str_join ''\<newline>'' [(''import React from '' @ [CHR 0x22] @ ''react'' @ [CHR 0x22] @ '';'')]"

definition getHtmlTag :: "FigmaNode \<Rightarrow> string" where
  "getHtmlTag node =
     (case node_type (attrs node) of
        TEXT \<Rightarrow> if isHeading node then ''h2'' else ''span''
      | FRAME \<Rightarrow> ''div''
      | RECTANGLE \<Rightarrow> if isImage node then ''img'' else ''div''
      | COMPONENT \<Rightarrow> ''div''
      | INSTANCE \<Rightarrow> ''div''
      | _ \<Rightarrow> ''div'')"

definition generateAttributes :: "FigmaNode \<Rightarrow> string" where
  "generateAttributes node =
     (let attributes = (if isImage node then [''src={src}'', ''alt={alt}''] else [])
      in if length attributes > 0 then '' '' @ str_join '' '' attributes else [])"

text \<open>\<open>replace(/\s+/g, '-')\<close>: every maximal run of white space becomes one hyphen.\<close>

function replace_space_runs :: "string \<Rightarrow> string" where
  "replace_space_runs [] = []"
| "replace_space_runs (c # cs) =
     (if is_space c then CHR ''-'' # replace_space_runs (dropWhile is_space cs)
      else c # replace_space_runs cs)"
  by pat_completeness auto
termination
  by (relation "measure length") (auto simp: length_dropWhile_le less_Suc_eq_le)

definition generateClassName :: "CodeGenerationOptions \<Rightarrow> FigmaNode \<Rightarrow> string" where
  "generateClassName opts node =
     (if styling opts = Tailwind then generateTailwindClasses node
      else filter (\<lambda>c. is_lower c \<or> is_digit c \<or> c = CHR ''-'')
             (replace_space_runs (toLowerCase (node_name (attrs node)))))"

definition generateInlineStyles :: "CodeGenerationOptions \<Rightarrow> FigmaNode \<Rightarrow> string" where
  "generateInlineStyles opts node =
     (if styling opts = Tailwind then []
      else
        (let styles = extractAllStyles node;
             styleEntries = str_join '', ''
               (map (\<lambda>entry. fst entry @ ('': '' @ [CHR 0x22]) @ sv_toString (snd entry) @ [CHR 0x22])
                    styles)
         in if truthy_str styleEntries then ''{{ '' @ styleEntries @ '' }}'' else []))"

definition generateJSXElement ::
  "FigmaNode \<Rightarrow> string \<Rightarrow> string \<Rightarrow> string \<Rightarrow> nat \<Rightarrow> string" where
  "generateJSXElement node className styles children' depth =
     (let indent = concat (replicate depth ''  '');
          tag = getHtmlTag node;
          attributes = generateAttributes node;
          opening = indent @ ''<'' @ tag @
            (if truthy_str className
             then ('' className='' @ [CHR 0x22]) @ className @ [CHR 0x22] else []) @
            (if truthy_str styles then '' style={'' @ styles @ ''}'' else []) @
            attributes
      in if node_type (attrs node) = TEXT \<and> truthy_opt_str (characters (attrs node)) then
           opening @ ''>\<newline>'' @ indent @ ''  {'' @
           (case characters (attrs node) of
              Some chars \<Rightarrow>
                if chars \<noteq> [] then [CHR 0x22] @ chars @ [CHR 0x22] else ''children''
            | None \<Rightarrow> ''children'') @
           ''}\<newline>'' @ indent @ ''</'' @ tag @ ''>''
         else if truthy_str children' then
           opening @ ''>\<newline>'' @ children' @ ''\<newline>'' @ indent @ ''</'' @ tag @ ''>''
         else opening @ '' />'')"

text \<open>\<open>generateChildren\<close>: every child is rendered at depth 2, around the rendering of
  its own children, and the renderings are joined by line feeds.\<close>

fun generateChildren :: "CodeGenerationOptions \<Rightarrow> FigmaNode \<Rightarrow> string"
  and generateChildren_each :: "CodeGenerationOptions \<Rightarrow> FigmaNode list \<Rightarrow> string list" where
  "generateChildren opts (FigmaNode a cs) =
     (case cs of
        None \<Rightarrow> []
      | Some l \<Rightarrow> if length l = 0 then [] else str_join ''\<newline>'' (generateChildren_each opts l))"
| "generateChildren_each opts [] = []"
| "generateChildren_each opts (child # rest) =
     generateJSXElement child (generateClassName opts child) (generateInlineStyles opts child)
       (generateChildren opts child) 2
     # generateChildren_each opts rest"

definition generateHTML :: "FigmaNode \<Rightarrow> string \<Rightarrow> string \<Rightarrow> string \<Rightarrow> string" where
  "generateHTML node className styles children' = ''<!-- HTML implementation -->''"

text \<open>
  An exception is a value: \<open>generateJSX\<close> ends in \<open>return jsx\<close> for a framework that is
  neither \<open>react\<close> nor \<open>html\<close>, and no variable \<open>jsx\<close> is in scope there.
\<close>

datatype js_error = ReferenceError string

definition generateJSX ::
  "CodeGenerationOptions \<Rightarrow> CustomCodeInputs \<Rightarrow> FigmaNode \<Rightarrow> string \<Rightarrow> js_error + string" where
  "generateJSX opts customCode node componentName =
     (let props = extractProps node;
          children' = generateChildren opts node;
          className = generateClassName opts node;
          styles = generateInlineStyles opts node
      in if framework opts = React then
           (let imports = generateImports opts node;
                propsInterface = (if typescript opts
                                  then generatePropsInterface props componentName else []);
                propNames = str_join '', '' (map prop_name props);
                componentSignature =
                  (if typescript opts
                   then ''export const '' @ componentName @ '': React.FC<'' @ componentName @
                        ''Props> = ({ '' @ propNames @ '' })''
                   else ''export const '' @ componentName @ '' = ({ '' @ propNames @ '' })'');
                customJSXSection =
                  (if truthy_str (custom_jsx customCode)
                   then (''\<newline>  // === EGY'' @ [CHR 0xC3, CHR 0x89] @ ''NI JSX K'' @ [CHR 0xC3, CHR 0x93] @ ''D ===\<newline>  '') @
                        custom_jsx customCode @
                        (''\<newline>  // === EGY'' @ [CHR 0xC3, CHR 0x89] @ ''NI JSX K'' @ [CHR 0xC3, CHR 0x93] @ ''D V'' @ [CHR 0xC3, CHR 0x89] @ ''GE ===\<newline>'')
                   else [])
            in Inr (imports @ ''\<newline>'' @ propsInterface @ ''\<newline>'' @ componentSignature @
                    '' => {'' @ customJSXSection @ ''\<newline>  return (\<newline>    '' @
                    generateJSXElement node className styles children' 1 @
                    ''\<newline>  );\<newline>};\<newline>\<newline>export default '' @ componentName @ '';''))
         else if framework opts = Html then Inr (generateHTML node className styles children')
         else Inl (ReferenceError ''jsx is not defined''))"

definition extractDependencies :: "CodeGenerationOptions \<Rightarrow> FigmaNode \<Rightarrow> string list" where
  "extractDependencies opts node =
     [''react''] @
     (if typescript opts then [''@types/react''] else []) @
     (if isImage node then [''next/image''] else []) @
     (if styling opts = Styled_components then [''styled-components''] else [])"

definition generateMetadata ::
  "CodeGenerationOptions \<Rightarrow> CustomCodeInputs \<Rightarrow> FigmaNode \<Rightarrow> int \<Rightarrow> ComponentMetadata" where
  "generateMetadata opts customCode node generationTime' =
     \<lparr>figmaNodeId = node_id (attrs node),
      componentType = detectComponentType node,
      complexity = calculateComplexity customCode node,
      estimatedAccuracy = estimateAccuracy customCode node,
      generationTime = generationTime',
      dependencies = extractDependencies opts node\<rparr>"

text \<open>
  The wall clock is an input: \<open>clock n\<close> is what the \<open>n\<close>-th call of \<open>Date.now()\<close>
  returns.  \<open>generateSingleComponent\<close> reads it twice, starting at reading \<open>tick\<close>.
\<close>

type_synonym Clock = "nat \<Rightarrow> int"

definition generateSingleComponent ::
  "CodeGenerationOptions \<Rightarrow> CustomCodeInputs \<Rightarrow> Clock \<Rightarrow> nat \<Rightarrow> FigmaNode \<Rightarrow> string
     \<Rightarrow> js_error + GeneratedComponent" where
  "generateSingleComponent opts customCode clock tick node componentName =
     (let startTime = clock tick;
          sanitizedName = sanitizeComponentName componentName
      in case generateJSX opts customCode node sanitizedName of
           Inl e \<Rightarrow> Inl e
         | Inr jsx \<Rightarrow>
             (let css = generateCSS opts customCode node sanitizedName;
                  accessibility = analyzeAccessibility customCode node;
                  responsive = analyzeResponsive node;
                  metadata = generateMetadata opts customCode node (clock (tick + 1) - startTime)
              in Inr \<lparr>gc_id = node_id (attrs node),
                      gc_name = sanitizedName,
                      gc_jsx = jsx,
                      gc_css = css,
                      gc_typescript = (if typescript opts
                                       then Some (generateTypeScript node sanitizedName)
                                       else None),
                      gc_accessibility = accessibility,
                      gc_responsive = responsive,
                      gc_metadata = metadata\<rparr>))"

section \<open>Document walker of \<open>AdvancedCodeGenerator\<close>\<close>

text \<open>\<open>findNodeById\<close>: the inner \<open>search\<close> returns the first node in pre-order whose id
  is the one looked for.\<close>

fun search :: "string \<Rightarrow> FigmaNode \<Rightarrow> FigmaNode option"
  and search_each :: "string \<Rightarrow> FigmaNode list \<Rightarrow> FigmaNode option" where
  "search i (FigmaNode a cs) =
     (if node_id a = i then Some (FigmaNode a cs)
      else (case cs of None \<Rightarrow> None | Some l \<Rightarrow> search_each i l))"
| "search_each i [] = None"
| "search_each i (child # rest) =
     (case search i child of Some found \<Rightarrow> Some found | None \<Rightarrow> search_each i rest)"

definition findNodeById :: "FigmaApiResponse \<Rightarrow> string \<Rightarrow> FigmaNode option" where
  "findNodeById figmaData i = search i (document figmaData)"

text \<open>\<open>findMainFrames\<close>: the inner \<open>traverse\<close> pushes onto the array \<open>frames\<close>, which is
  threaded through the traversal here.\<close>

fun traverse :: "FigmaNode \<Rightarrow> FigmaNode list \<Rightarrow> FigmaNode list"
  and traverse_each :: "FigmaNode list \<Rightarrow> FigmaNode list \<Rightarrow> FigmaNode list" where
  "traverse (FigmaNode a cs) frames =
     (let frames1 =
            (if node_type a = FRAME \<and> (case cs of None \<Rightarrow> False | Some l \<Rightarrow> length l > 0)
             then frames @ [FigmaNode a cs] else frames)
      in (case cs of None \<Rightarrow> frames1 | Some l \<Rightarrow> traverse_each l frames1))"
| "traverse_each [] frames = frames"
| "traverse_each (child # rest) frames = traverse_each rest (traverse child frames)"

definition findMainFrames :: "FigmaNode \<Rightarrow> FigmaNode list" where
  "findMainFrames node = traverse node []"

text \<open>
  \<open>generateComponents\<close>: the two \<open>forEach\<close> loops.  An exception of
  \<open>generateSingleComponent\<close> leaves the loop and the method; every component that is
  generated takes two clock readings.
\<close>

fun generate_named ::
  "FigmaApiResponse \<Rightarrow> CodeGenerationOptions \<Rightarrow> CustomCodeInputs \<Rightarrow> Clock \<Rightarrow> nat
     \<Rightarrow> (string \<times> FigmaComponent) list \<Rightarrow> js_error + GeneratedComponent list" where
  "generate_named figmaData opts customCode clock tick [] = Inr []"
| "generate_named figmaData opts customCode clock tick ((key, component) # rest) =
     (case findNodeById figmaData (comp_key component) of
        None \<Rightarrow> generate_named figmaData opts customCode clock tick rest
      | Some node \<Rightarrow>
          (case generateSingleComponent opts customCode clock tick node (comp_name component) of
             Inl e \<Rightarrow> Inl e
           | Inr generatedComponent \<Rightarrow>
               (case generate_named figmaData opts customCode clock (tick + 2) rest of
                  Inl e \<Rightarrow> Inl e
                | Inr components' \<Rightarrow> Inr (generatedComponent # components'))))"

fun generate_frames ::
  "CodeGenerationOptions \<Rightarrow> CustomCodeInputs \<Rightarrow> Clock \<Rightarrow> nat \<Rightarrow> FigmaNode list
     \<Rightarrow> js_error + GeneratedComponent list" where
  "generate_frames opts customCode clock tick [] = Inr []"
| "generate_frames opts customCode clock tick (frame # rest) =
     (case generateSingleComponent opts customCode clock tick frame (node_name (attrs frame)) of
        Inl e \<Rightarrow> Inl e
      | Inr generatedComponent \<Rightarrow>
          (case generate_frames opts customCode clock (tick + 2) rest of
             Inl e \<Rightarrow> Inl e
           | Inr components' \<Rightarrow> Inr (generatedComponent # components')))"

definition generateComponents ::
  "FigmaApiResponse \<Rightarrow> CodeGenerationOptions \<Rightarrow> CustomCodeInputs \<Rightarrow> Clock
     \<Rightarrow> js_error + GeneratedComponent list" where
  "generateComponents figmaData opts customCode clock =
     (case generate_named figmaData opts customCode clock 0
             (case components figmaData of None \<Rightarrow> [] | Some entries \<Rightarrow> entries) of
        Inl e \<Rightarrow> Inl e
      | Inr components' \<Rightarrow>
          if length components' = 0
          then generate_frames opts customCode clock 0 (findMainFrames (document figmaData))
          else Inr components')"

text \<open>
  The walker as the specification words it: the nodes of the tree in pre-order, and the
  frames with at least one child among them.
\<close>

fun preorder :: "FigmaNode \<Rightarrow> FigmaNode list" where
  "preorder (FigmaNode a cs) =
     FigmaNode a cs # (case cs of None \<Rightarrow> [] | Some l \<Rightarrow> concat (map preorder l))"

definition is_frame_with_children :: "FigmaNode \<Rightarrow> bool" where
  "is_frame_with_children node =
     (node_type (attrs node) = FRAME \<and> length (child_list node) > 0)"

definition spec_fallback_roots :: "FigmaNode \<Rightarrow> FigmaNode list" where
  "spec_fallback_roots node = filter is_frame_with_children (preorder node)"



section \<open>Stylesheet text of the generation hook and of the server's mock route\<close>

text \<open>
  The analysis record of the generation hook (the file that follows the generator class in
  services/advanced-code-generator.ts), the module-level \<open>generateCSS\<close> of that file
  (\<open>hook_generateCSS\<close> here, the class has a method of the same name) and
  \<open>generateMockCSS\<close> of server/routes.ts.  An optional string parameter is a
  \<open>string option\<close>; \<open>figmaData.name\<close> is read through \<open>?.\<close> and may be absent.
\<close>

datatype AnalysisComponentType = Basic | Interactive | Container

datatype AnalysisComplexity = Low | Mid | High

datatype LayoutType = Static | Flexbox_row | Flexbox_column

record Typography =
  typo_fontSize :: rat
  typo_fontWeight :: rat
  typo_fontFamily :: string

record Spacing =
  consistent :: bool
  scale :: string

record FigmaAnalysis =
  fa_componentType :: AnalysisComponentType
  fa_complexity :: AnalysisComplexity
  hasResponsiveElements :: bool
  interactiveElements :: "string list"
  layoutType :: LayoutType
  colorPalette :: "Color list"
  typography :: "Typography list"
  spacing :: Spacing

definition layoutType_text :: "LayoutType \<Rightarrow> string" where
  "layoutType_text t =
     (case t of Static \<Rightarrow> ''static'' | Flexbox_row \<Rightarrow> ''flexbox-row''
      | Flexbox_column \<Rightarrow> ''flexbox-column'')"

text \<open>An optional string inside a template literal: \<open>undefined\<close> prints as that word.\<close>

definition opt_text :: "string option \<Rightarrow> string" where
  "opt_text v = (case v of None \<Rightarrow> ''undefined'' | Some s \<Rightarrow> s)"

definition interactive_css :: "string \<Rightarrow> string" where
  "interactive_css componentName =
         ''\<newline>'' @
         ''.'' @ componentName @ ''-element:hover {\<newline>'' @
         ''  transform: translateY(-1px);\<newline>'' @
         ''  box-shadow: 0 4px 12px rgba(0, 0, 0, 0.15);\<newline>'' @
         ''}\<newline>'' @
         ''\<newline>'' @
         ''.'' @ componentName @ ''-element:focus-visible {\<newline>'' @
         ''  outline: 2px solid var(--'' @ componentName @ ''-primary);\<newline>'' @
         ''  outline-offset: 2px;\<newline>'' @
         ''}''"

definition hook_base_css :: "string \<Rightarrow> string \<Rightarrow> string \<Rightarrow> string \<Rightarrow> string" where
  "hook_base_css name_text componentName display interactive_rules =
         ''/* Generated CSS for '' @ name_text @ '' */\<newline>'' @
         '':root {\<newline>'' @
         ''  --'' @ componentName @ ''-primary: hsl(221.2 83.2% 53.3%);\<newline>'' @
         ''  --'' @ componentName @ ''-primary-foreground: hsl(210 40% 98%);\<newline>'' @
         ''  --'' @ componentName @ ''-secondary: hsl(210 40% 96%);\<newline>'' @
         ''  --'' @ componentName @ ''-border: hsl(214.3 31.8% 91.4%);\<newline>'' @
         ''  --'' @ componentName @ ''-radius: 0.5rem;\<newline>'' @
         ''}\<newline>'' @
         ''\<newline>'' @
         ''.'' @ componentName @ ''-container {\<newline>'' @
         ''  position: relative;\<newline>'' @
         ''  width: 100%;\<newline>'' @
         ''  max-width: 32rem;\<newline>'' @
         ''  margin: 0 auto;\<newline>'' @
         ''  padding: 1.5rem;\<newline>'' @
         ''  background: var(--'' @ componentName @ ''-secondary);\<newline>'' @
         ''  border: 1px solid var(--'' @ componentName @ ''-border);\<newline>'' @
         ''  border-radius: var(--'' @ componentName @ ''-radius);\<newline>'' @
         ''  box-shadow: 0 1px 3px 0 rgba(0, 0, 0, 0.1);\<newline>'' @
         ''}\<newline>'' @
         ''\<newline>'' @
         ''.'' @ componentName @ ''-element {\<newline>'' @
         ''  display: '' @ display @ '';\<newline>'' @
         ''  align-items: center;\<newline>'' @
         ''  justify-content: center;\<newline>'' @
         ''  border-radius: calc(var(--'' @ componentName @
         ''-radius) - 2px);\<newline>'' @
         ''  font-weight: 500;\<newline>'' @
         ''  transition: all 0.2s cubic-bezier(0.4, 0, 0.2, 1);\<newline>'' @
         ''}\<newline>'' @
         ''\<newline>'' @
         interactive_rules @ ''\<newline>'' @
         ''\<newline>'' @
         ''@keyframes '' @ componentName @ ''-fade-in {\<newline>'' @
         ''  from { opacity: 0; transform: translateY(-0.5rem); }\<newline>'' @
         ''  to { opacity: 1; transform: translateY(0); }\<newline>'' @
         ''}\<newline>'' @
         ''\<newline>'' @
         ''.'' @ componentName @ ''-animate-in {\<newline>'' @
         ''  animation: '' @ componentName @ ''-fade-in 0.3s ease-out;\<newline>'' @
         ''}''"

definition hook_generateCSS ::
  "FigmaApiResponse \<Rightarrow> FigmaAnalysis \<Rightarrow> string option \<Rightarrow> string option \<Rightarrow> string" where
  "hook_generateCSS figmaData analysis customCss fullCss =
     (let componentName =
            (case file_name figmaData of
               None \<Rightarrow> ''component''
             | Some n \<Rightarrow>
                 (let cn = toLowerCase (filter is_alnum n)
                  in if truthy_str cn then cn else ''component''));
          css0 = hook_base_css (opt_text (file_name figmaData)) componentName
                   (if str_includes (layoutType_text (layoutType analysis)) ''flexbox''
                    then ''flex'' else ''block'')
                   (if fa_componentType analysis = Interactive
                    then interactive_css componentName else []);
          css1 = (if truthy_opt_str customCss
                  then css0 @ ''\<newline>\<newline>/* Custom CSS */\<newline>'' @ opt_text customCss
                  else css0);
          css2 = (if truthy_opt_str fullCss then opt_text fullCss else css1)
      in css2)"

definition mock_base_css :: "string \<Rightarrow> string" where
  "mock_base_css name_text =
         ''/* Generated CSS for '' @ name_text @ '' */\<newline>'' @
         ''.generated-component {\<newline>'' @
         ''  padding: 1rem;\<newline>'' @
         ''  border-radius: 8px;\<newline>'' @
         ''  background: white;\<newline>'' @
         ''  box-shadow: 0 2px 4px rgba(0, 0, 0, 0.1);\<newline>'' @
         ''}\<newline>'' @
         ''\<newline>'' @
         ''.generated-component h1 {\<newline>'' @
         ''  font-size: 1.5rem;\<newline>'' @
         ''  font-weight: bold;\<newline>'' @
         ''  margin-bottom: 0.5rem;\<newline>'' @
         ''  color: hsl(20, 14.3%, 4.1%);\<newline>'' @
         ''}\<newline>'' @
         ''\<newline>'' @
         ''.generated-component p {\<newline>'' @
         ''  color: hsl(25, 5.3%, 44.7%);\<newline>'' @
         ''}''"

definition generateMockCSS :: "string option \<Rightarrow> string option \<Rightarrow> string option \<Rightarrow> string" where
  "generateMockCSS figmaData_name customCss fullCss =
     (let css0 = mock_base_css (opt_text figmaData_name);
          css1 = (if truthy_opt_str customCss
                  then css0 @ ''\<newline>\<newline>/* Custom CSS */\<newline>'' @ opt_text customCss
                  else css0);
          css2 = (if truthy_opt_str fullCss
                  then css1 @ ''\<newline>\<newline>/* Advanced CSS */\<newline>'' @ opt_text fullCss
                  else css1)
      in css2)"


section \<open>The caching generator \<open>CodeGenerator\<close> (utils/code-generator.ts)\<close>

text \<open>
  The class ends with a comment saying that its helper methods are carried over
  unchanged and leaves them out; \<open>generateClassName\<close> is called and not defined either.
  They are parameters of the model: a record of the functions the class calls.
\<close>

record Helpers =
  h_sanitizeComponentName :: "string \<Rightarrow> string"
  h_generateClassName :: "FigmaNode \<Rightarrow> Styling \<Rightarrow> string"
  h_detectComponentType :: "FigmaNode \<Rightarrow> ComponentType"
  h_calculateComplexity :: "FigmaNode \<Rightarrow> Complexity"
  h_estimateAccuracy :: "FigmaNode \<Rightarrow> int"
  h_extractDependencies :: "FigmaNode \<Rightarrow> string list"
  h_isInteractiveElement :: "FigmaNode \<Rightarrow> bool"
  h_generateResponsiveCSS :: "FigmaNode \<Rightarrow> string \<Rightarrow> string"





















definition cg_analyzeResponsive :: "Helpers \<Rightarrow> FigmaNode \<Rightarrow> ResponsiveBreakpoints" where
  "cg_analyzeResponsive h node =
     (let hasFlex = (layoutMode (attrs node) = Some HORIZONTAL \<or>
                     layoutMode (attrs node) = Some VERTICAL);
          hasConstraints = (map_option horizontal (constraints (attrs node)) \<noteq> Some ''LEFT'' \<or>
                            map_option vertical (constraints (attrs node)) \<noteq> Some ''TOP'')
      in \<lparr>mobile = h_generateResponsiveCSS h node ''mobile'',
          tablet = h_generateResponsiveCSS h node ''tablet'',
          desktop = h_generateResponsiveCSS h node ''desktop'',
          hasResponsiveDesign = (hasFlex \<or> hasConstraints)\<rparr>)"




text \<open>
  For concrete runs the helpers are those of the main generator, with no custom code;
  where a method of the main generator reads the generator's options, the options are
  react with TypeScript and the styling at hand.
\<close>

definition helper_options :: "Styling \<Rightarrow> CodeGenerationOptions" where
  "helper_options styling' =
     \<lparr>framework = React, styling = styling', typescript = True, opt_accessibility = True,
      opt_responsive = True, optimizeImages = True\<rparr>"

definition carried_over_helpers :: Helpers where
  "carried_over_helpers =
     \<lparr>h_sanitizeComponentName = sanitizeComponentName,
      h_generateClassName = (\<lambda>node styling'. generateClassName (helper_options styling') node),
      h_detectComponentType = detectComponentType,
      h_calculateComplexity = calculateComplexity no_custom_code,
      h_estimateAccuracy = estimateAccuracy no_custom_code,
      h_extractDependencies = extractDependencies (helper_options Plain_css),
      h_isInteractiveElement = isInteractiveElement,
      h_generateResponsiveCSS = generateResponsiveCSS\<rparr>"


section \<open>Concrete documents\<close>

definition bare_node :: FigmaNode where
  "bare_node = FigmaNode default_attrs None"

definition css_only_custom :: CustomCodeInputs where
  "css_only_custom = \<lparr>custom_jsx = [], custom_css = ''a{}'', cssAdvanced = []\<rparr>"

definition pure_red :: Color where
  "pure_red = \<lparr>color_r = 1, color_g = 0, color_b = 0, color_a = Some 1\<rparr>"

definition red_node :: FigmaNode where
  "red_node = FigmaNode (default_attrs\<lparr>backgroundColor := Some pure_red\<rparr>) None"

definition css_modules_options :: CodeGenerationOptions where
  "css_modules_options =
     \<lparr>framework = React, styling = Css_modules, typescript = True, opt_accessibility = True,
      opt_responsive = True, optimizeImages = True\<rparr>"

definition hello_text :: FigmaNode where
  "hello_text =
     FigmaNode (default_attrs\<lparr>node_id := ''1:2'', node_name := ''Title'', node_type := TEXT,
                              characters := Some ''Hello''\<rparr>) None"

definition card_frame :: FigmaNode where
  "card_frame =
     FigmaNode (default_attrs\<lparr>node_id := ''1:1'', node_name := ''Card'', node_type := FRAME\<rparr>)
       (Some [hello_text])"

definition empty_frame :: FigmaNode where
  "empty_frame =
     FigmaNode (default_attrs\<lparr>node_id := ''1:3'', node_name := ''Empty'', node_type := FRAME\<rparr>)
       None"

definition sample_canvas :: FigmaNode where
  "sample_canvas =
     FigmaNode (default_attrs\<lparr>node_id := ''0:1'', node_name := ''Page 1'', node_type := CANVAS\<rparr>)
       (Some [card_frame, empty_frame])"

definition sample_document :: FigmaNode where
  "sample_document =
     FigmaNode (default_attrs\<lparr>node_id := ''0:0'', node_name := ''Document'',
                              node_type := DOCUMENT\<rparr>)
       (Some [sample_canvas])"

text \<open>The same document with no named components, with two table entries whose \<open>key\<close> is
  the id of the card frame, and with one entry filed under the card frame's id whose
  \<open>key\<close> is the id of no node.\<close>

definition file_without_components :: FigmaApiResponse where
  "file_without_components =
     \<lparr>document = sample_document, components = None, file_name = Some ''Sample''\<rparr>"


definition file_with_foreign_key :: FigmaApiResponse where
  "file_with_foreign_key =
     \<lparr>document = sample_document,
      components = Some [(''1:1'', \<lparr>comp_key = ''a1b2c3'', comp_name = ''Card''\<rparr>)],
      file_name = Some ''Sample''\<rparr>"

definition tick_clock :: Clock where
  "tick_clock n = int n"




definition sample_analysis :: FigmaAnalysis where
  "sample_analysis =
     \<lparr>fa_componentType = Container, fa_complexity = Low, hasResponsiveElements = False,
      interactiveElements = [], layoutType = Flexbox_row, colorPalette = [],
      typography = [], spacing = \<lparr>consistent = True, scale = ''medium''\<rparr>\<rparr>"




section \<open>Accessibility score and level\<close>

lemma accessibility_score_cases:
  "score (analyzeAccessibility customCode node) = (if isImage node then 85 else 100)"
  by (simp add: analyzeAccessibility_def calculateContrastRatio_def Let_def)

text \<open>
  C3.  For every design node the accessibility report's score lies between 0 and 100,
  and the reported level is the fixed-threshold function of the reported score
  (at least 80 gives AA, at least 60 gives A, anything lower Non-compliant).
\<close>

theorem accessibility_score_range_and_level:
  "0 \<le> score (analyzeAccessibility customCode node) \<and>
   score (analyzeAccessibility customCode node) \<le> 100 \<and>
   wcagCompliance (analyzeAccessibility customCode node) =
     spec_wcagLevel (score (analyzeAccessibility customCode node))"
  by (simp add: analyzeAccessibility_def calculateContrastRatio_def spec_wcagLevel_def Let_def)

text \<open>
  C9.  The contrast placeholder returns exactly 4.5 and the check is a strict comparison
  with 4.5, so the low-contrast branch is never taken: the only issue a report can hold
  is the missing-alt-text error of an image node, the score is 85 or 100, and the level
  is always AA.
\<close>

theorem low_contrast_branch_unreachable:
  "calculateContrastRatio node = 45 / 10 \<and>
   \<not> calculateContrastRatio node < 45 / 10 \<and>
   issues (analyzeAccessibility customCode node) =
     (if isImage node then [missing_alt_issue node] else []) \<and>
   (score (analyzeAccessibility customCode node) = 85 \<or>
    score (analyzeAccessibility customCode node) = 100) \<and>
   wcagCompliance (analyzeAccessibility customCode node) = WCAG_AA"
  by (simp add: analyzeAccessibility_def calculateContrastRatio_def Let_def)

section \<open>Responsiveness flag\<close>

lemma analyzeResponsive_flag:
  "hasResponsiveDesign (analyzeResponsive node) \<longleftrightarrow>
     layoutMode (attrs node) = Some HORIZONTAL \<or> layoutMode (attrs node) = Some VERTICAL \<or>
     (case constraints (attrs node) of
        None \<Rightarrow> True
      | Some c \<Rightarrow> horizontal c \<noteq> ''LEFT'' \<or> vertical c \<noteq> ''TOP'')"
  by (cases "constraints (attrs node)") (simp_all add: analyzeResponsive_def Let_def)

lemma cg_analyzeResponsive_flag:
  "hasResponsiveDesign (cg_analyzeResponsive h node) =
   hasResponsiveDesign (analyzeResponsive node)"
  by (simp add: cg_analyzeResponsive_def analyzeResponsive_def Let_def)

text \<open>
  C1.  The responsiveness flag of a node with no layout axis and no constraints at all:
  the claim gives \<open>false\<close> for it (no axis, nothing that deviates from the top/left
  anchoring), the analysis of either generator returns \<open>true\<close>, because the absent
  constraints are compared with \<open>'LEFT'\<close> and \<open>'TOP'\<close> as \<open>undefined\<close>.
\<close>

theorem responsive_without_constraints:
  "layoutMode (attrs bare_node) = None \<and> constraints (attrs bare_node) = None \<and>
   hasResponsiveDesign (analyzeResponsive bare_node) = True \<and>
   hasResponsiveDesign (cg_analyzeResponsive h bare_node) = True"
  by (simp add: bare_node_def default_attrs_def analyzeResponsive_def cg_analyzeResponsive_def
      Let_def)

theorem responsive_without_constraints_witness:
  "hasResponsiveDesign (analyzeResponsive bare_node) \<and>
   hasResponsiveDesign (cg_analyzeResponsive carried_over_helpers bare_node)"
  using responsive_without_constraints [of carried_over_helpers] by simp

section \<open>Estimated accuracy\<close>

lemma calculateComplexity_without_custom_code:
  "\<not> has_custom_code customCode \<Longrightarrow> calculateComplexity customCode node = spec_complexity node"
  by (cases "effects (attrs node)"; cases "fills (attrs node)")
     (simp_all add: calculateComplexity_def complexity_sum_def spec_complexity_def Let_def)

text \<open>
  C4, as the claim words it, fails when the caller has supplied custom code: for a
  childless node and a custom CSS fragment the estimate is 100, the claimed value 95.
\<close>

theorem accuracy_claim_fails_with_custom_code:
  "estimateAccuracy css_only_custom bare_node = 100 \<and> spec_estimatedAccuracy bare_node = 95"
  by code_simp

text \<open>
  C4, amended.  The estimate is the base 85, plus 10 if the complexity bucket computed by
  the generator is simple, minus 5 for more than five children, plus 5 for a button, text
  or card, plus 5 if any custom code fragment has been supplied, clamped to 70..100.
  With no custom code it is the claimed value, and it always lies in 70..100.
\<close>

theorem accuracy_formula_and_range:
  "estimateAccuracy customCode node =
     min 100 (max 70
       (85 + (if calculateComplexity customCode node = Simple then 10 else 0)
           - (if length (child_list node) > 5 then 5 else 0)
           + (if detectComponentType node = CT_button \<or> detectComponentType node = CT_text \<or>
                 detectComponentType node = CT_card then 5 else 0)
           + (if has_custom_code customCode then 5 else 0))) \<and>
   (\<not> has_custom_code customCode \<longrightarrow>
      estimateAccuracy customCode node = spec_estimatedAccuracy node) \<and>
   70 \<le> estimateAccuracy customCode node \<and> estimateAccuracy customCode node \<le> 100"
proof -
  have formula: "estimateAccuracy customCode node =
     min 100 (max 70
       (85 + (if calculateComplexity customCode node = Simple then 10 else 0)
           - (if length (child_list node) > 5 then 5 else 0)
           + (if detectComponentType node = CT_button \<or> detectComponentType node = CT_text \<or>
                 detectComponentType node = CT_card then 5 else 0)
           + (if has_custom_code customCode then 5 else 0)))"
    by (simp add: estimateAccuracy_def Let_def)
  have plain: "\<not> has_custom_code customCode \<longrightarrow>
      estimateAccuracy customCode node = spec_estimatedAccuracy node"
    by (simp add: formula spec_estimatedAccuracy_def calculateComplexity_without_custom_code)
  have range: "70 \<le> estimateAccuracy customCode node \<and> estimateAccuracy customCode node \<le> 100"
    by (simp add: estimateAccuracy_def Let_def)
  from formula plain range show ?thesis by blast
qed

theorem accuracy_formula_and_range_witness:
  "\<not> has_custom_code no_custom_code \<and>
   estimateAccuracy no_custom_code bare_node = spec_estimatedAccuracy bare_node \<and>
   70 \<le> estimateAccuracy no_custom_code bare_node \<and>
   estimateAccuracy no_custom_code bare_node \<le> 100"
proof -
  have h: "\<not> has_custom_code no_custom_code"
    by (simp add: has_custom_code_def no_custom_code_def truthy_str_def)
  with accuracy_formula_and_range [of no_custom_code bare_node] show ?thesis by blast
qed

section \<open>Background colour declaration\<close>

lemma str_includes_iff: "str_includes s sub \<longleftrightarrow> (\<exists>p q. s = p @ sub @ q)"
proof (induction s)
  case Nil
  then show ?case by auto
next
  case (Cons c cs)
  show ?case
  proof
    assume "str_includes (c # cs) sub"
    then consider "prefix sub (c # cs)" | "str_includes cs sub" by auto
    then show "\<exists>p q. c # cs = p @ sub @ q"
    proof cases
      case 1
      then obtain q where "c # cs = sub @ q" by (auto simp: prefix_def)
      then have "c # cs = [] @ sub @ q" by simp
      then show ?thesis by blast
    next
      case 2
      with Cons.IH obtain p q where "cs = p @ sub @ q" by blast
      then have "c # cs = (c # p) @ sub @ q" by simp
      then show ?thesis by blast
    qed
  next
    assume "\<exists>p q. c # cs = p @ sub @ q"
    then obtain p q where pq: "c # cs = p @ sub @ q" by blast
    show "str_includes (c # cs) sub"
    proof (cases p)
      case Nil
      with pq have "prefix sub (c # cs)" by (simp add: prefix_def)
      then show ?thesis by simp
    next
      case (Cons d p')
      with pq have "cs = p' @ sub @ q" by simp
      with Cons.IH have "str_includes cs sub" by blast
      then show ?thesis by simp
    qed
  qed
qed

lemma str_includes_embed: "str_includes s sub \<Longrightarrow> str_includes (pre @ s @ post) sub"
proof -
  assume "str_includes s sub"
  then obtain p q where "s = p @ sub @ q" unfolding str_includes_iff by blast
  then have "pre @ s @ post = (pre @ p) @ sub @ (q @ post)" by simp
  then show ?thesis unfolding str_includes_iff by blast
qed

lemma str_join_includes: "x \<in> set xs \<Longrightarrow> str_includes (str_join sep xs) x"
proof (induction sep xs rule: str_join.induct)
  case (1 sep)
  then show ?case by simp
next
  case (2 sep y)
  then have "y = [] @ x @ []" by simp
  then show ?case unfolding str_includes_iff str_join.simps by blast
next
  case (3 sep a b ys)
  show ?case
  proof (cases "x = a")
    case True
    have "str_join sep (a # b # ys) = [] @ x @ (sep @ str_join sep (b # ys))"
      using True by simp
    then show ?thesis unfolding str_includes_iff by blast
  next
    case False
    with 3 have "str_includes (str_join sep (b # ys)) x" by simp
    then obtain p q where "str_join sep (b # ys) = p @ x @ q"
      unfolding str_includes_iff by blast
    then have "str_join sep (a # b # ys) = (a @ sep @ p) @ x @ q" by simp
    then show ?thesis unfolding str_includes_iff by blast
  qed
qed

lemma map_of_obj_set: "map_of (obj_set k v s) k' = (if k' = k then Some v else map_of s k')"
  by (induction s) auto

lemma colorToCSS_pure_red: "colorToCSS pure_red None = ''rgba(255, 0, 0, 1)''"
  by code_simp

lemma style_shadow_keeps:
  "k \<noteq> ''boxShadow'' \<Longrightarrow> map_of (style_shadow a s) k = map_of s k"
  by (simp add: style_shadow_def Let_def map_of_obj_set split: option.splits)

lemma style_opacity_keeps:
  "k \<noteq> ''opacity'' \<Longrightarrow> map_of (style_opacity a s) k = map_of s k"
  by (simp add: style_opacity_def map_of_obj_set split: option.splits)

lemma style_text_keeps:
  "k \<notin> set [''fontFamily'', ''fontSize'', ''lineHeight'', ''letterSpacing'', ''color''] \<Longrightarrow>
   map_of (style_text a s) k = map_of s k"
  by (simp add: style_text_def Let_def map_of_obj_set split: option.splits list.splits)

lemma style_border_keeps:
  "k \<noteq> ''border'' \<Longrightarrow> map_of (style_border a s) k = map_of s k"
  by (simp add: style_border_def map_of_obj_set split: option.splits list.splits)

lemma style_radius_keeps:
  "k \<noteq> ''borderRadius'' \<Longrightarrow> map_of (style_radius a s) k = map_of s k"
  by (simp add: style_radius_def map_of_obj_set)

lemma style_fill_none:
  "fills a = None \<or> fills a = Some [] \<Longrightarrow> style_fill a s = s"
  by (auto simp: style_fill_def)

lemma style_backgroundColor_sets:
  "backgroundColor a = Some c \<Longrightarrow>
   map_of (style_backgroundColor a s) ''backgroundColor'' = Some (SV_str (colorToCSS c None))"
  by (simp add: style_backgroundColor_def map_of_obj_set)

lemma backgroundColor_entry:
  assumes "backgroundColor (attrs node) = Some c"
    and "fills (attrs node) = None \<or> fills (attrs node) = Some []"
  shows "map_of (extractAllStyles node) ''backgroundColor'' = Some (SV_str (colorToCSS c None))"
  unfolding extractAllStyles_def Let_def
  by (simp add: style_shadow_keeps style_opacity_keeps style_text_keeps style_border_keeps
      style_radius_keeps style_fill_none[OF assms(2)] style_backgroundColor_sets[OF assms(1)])

lemma css_rules_include_declaration:
  assumes "map_of styles property = Some v"
  shows "str_includes (convertToCSSRules styles componentName) (css_declaration (property, v))"
proof -
  from assms have "(property, v) \<in> set styles" by (rule map_of_SomeD)
  then have "css_declaration (property, v) \<in> set (map css_declaration styles)" by simp
  then have "str_includes (str_join ''\<newline>'' (map css_declaration styles))
               (css_declaration (property, v))"
    by (rule str_join_includes)
  then have "str_includes ((''.'' @ toLowerCase componentName @ '' {\<newline>'') @
       str_join ''\<newline>'' (map css_declaration styles) @ ''\<newline>}'') (css_declaration (property, v))"
    by (rule str_includes_embed)
  then show ?thesis by (simp add: convertToCSSRules_def Let_def)
qed

lemma red_declaration_text:
  "css_declaration (''backgroundColor'', SV_str ''rgba(255, 0, 0, 1)'') =
     ''  background-color: rgba(255, 0, 0, 1);''"
  by (simp add: css_declaration_def camelToKebab_def is_upper_def toLowerCase_def to_lower_def
      sv_toString_def)

lemma css_modules_text:
  "styling opts = Css_modules \<Longrightarrow>
   \<exists>post. generateCSS opts customCode node componentName =
          [] @ convertToCSSRules (extractAllStyles node) componentName @ post"
  by (simp add: generateCSS_def Let_def generateCSSModules_def)

text \<open>
  C7, as the claim words it, fails on the spacing: the value written for the colour
  \<open>{r:1, g:0, b:0, a:1}\<close> has a space after each comma, so the style object does not hold
  \<open>rgba(255,0,0,1)\<close> and the scoped CSS text does not contain it.
\<close>

theorem red_background_is_not_unspaced:
  "map_of (extractAllStyles red_node) ''backgroundColor'' \<noteq> Some (SV_str ''rgba(255,0,0,1)'') \<and>
   \<not> str_includes (generateCSS css_modules_options no_custom_code red_node ''Node'')
         ''rgba(255,0,0,1)''"
  by code_simp

text \<open>
  C7, amended.  For every node whose background colour is \<open>{r:1, g:0, b:0, a:1}\<close> and that
  has no fills, the extracted style holds the background colour \<open>rgba(255, 0, 0, 1)\<close>
  (a comma and a space between the components, the alpha taken from the colour), and the
  scoped CSS text contains the declaration \<open>background-color: rgba(255, 0, 0, 1);\<close>.
\<close>

theorem red_background_declaration:
  assumes "backgroundColor (attrs node) = Some pure_red"
    and "fills (attrs node) = None \<or> fills (attrs node) = Some []"
    and "styling opts = Css_modules"
  shows "map_of (extractAllStyles node) ''backgroundColor'' = Some (SV_str ''rgba(255, 0, 0, 1)'') \<and>
         str_includes (generateCSS opts customCode node componentName)
           ''  background-color: rgba(255, 0, 0, 1);''"
proof -
  have e: "map_of (extractAllStyles node) ''backgroundColor'' = Some (SV_str ''rgba(255, 0, 0, 1)'')"
    using backgroundColor_entry[OF assms(1,2)] by (simp add: colorToCSS_pure_red)
  have "str_includes (convertToCSSRules (extractAllStyles node) componentName)
          (css_declaration (''backgroundColor'', SV_str ''rgba(255, 0, 0, 1)''))"
    using e by (rule css_rules_include_declaration)
  then have d: "str_includes (convertToCSSRules (extractAllStyles node) componentName)
          ''  background-color: rgba(255, 0, 0, 1);''"
    by (simp only: red_declaration_text)
  obtain post where "generateCSS opts customCode node componentName =
          [] @ convertToCSSRules (extractAllStyles node) componentName @ post"
    using css_modules_text[OF assms(3)] by blast
  with str_includes_embed[OF d, of "[]" post]
  have "str_includes (generateCSS opts customCode node componentName)
           ''  background-color: rgba(255, 0, 0, 1);''"
    by simp
  with e show ?thesis by simp
qed

theorem red_background_declaration_witness:
  "backgroundColor (attrs red_node) = Some pure_red \<and>
   fills (attrs red_node) = None \<and>
   styling css_modules_options = Css_modules \<and>
   map_of (extractAllStyles red_node) ''backgroundColor'' = Some (SV_str ''rgba(255, 0, 0, 1)'') \<and>
   str_includes (generateCSS css_modules_options no_custom_code red_node ''Node'')
     ''  background-color: rgba(255, 0, 0, 1);''"
proof -
  have a: "backgroundColor (attrs red_node) = Some pure_red"
    by (simp add: red_node_def default_attrs_def)
  have b: "fills (attrs red_node) = None"
    by (simp add: red_node_def default_attrs_def)
  have c: "styling css_modules_options = Css_modules"
    by (simp add: css_modules_options_def)
  from b have b': "fills (attrs red_node) = None \<or> fills (attrs red_node) = Some []" by simp
  from red_background_declaration [OF a b' c, of no_custom_code "''Node''"] a b c
  show ?thesis by simp
qed


section \<open>Root selection of the document walker\<close>

lemma traverse_appends_frames:
  "traverse node frames = frames @ filter is_frame_with_children (preorder node)"
  "traverse_each l frames = frames @ filter is_frame_with_children (concat (map preorder l))"
proof (induction node frames and l frames rule: traverse_traverse_each.induct)
  case (1 a cs frames)
  show ?case
  proof (cases cs)
    case None
    then show ?thesis by (simp add: is_frame_with_children_def child_list_def)
  next
    case (Some l)
    from 1 [OF refl Some] show ?thesis
      unfolding Some
      by (auto simp: is_frame_with_children_def child_list_def Let_def split: if_splits)
  qed
next
  case (2 frames)
  then show ?case by simp
next
  case (3 child rest frames)
  then show ?case by simp
qed

lemma findMainFrames_preorder: "findMainFrames node = spec_fallback_roots node"
  by (simp add: findMainFrames_def spec_fallback_roots_def traverse_appends_frames)

lemma find_in_append:
  "find P (xs @ ys) = (case find P xs of Some x \<Rightarrow> Some x | None \<Rightarrow> find P ys)"
  by (induction xs) simp_all

lemma search_first_match:
  "search i node = find (\<lambda>n. node_id (attrs n) = i) (preorder node)"
  "search_each i l = find (\<lambda>n. node_id (attrs n) = i) (concat (map preorder l))"
proof (induction i node and i l rule: search_search_each.induct)
  case (1 i a cs)
  then show ?case by (cases cs) simp_all
next
  case (2 i)
  then show ?case by simp
next
  case (3 i child rest)
  then show ?case by (simp add: find_in_append split: option.splits)
qed

lemma findNodeById_None_iff:
  "findNodeById figmaData i = None \<longleftrightarrow>
     i \<notin> set (map (\<lambda>n. node_id (attrs n)) (preorder (document figmaData)))"
  by (auto simp: findNodeById_def search_first_match find_None_iff)

lemma generateSingleComponent_ok:
  "framework opts \<noteq> Vue \<Longrightarrow>
   \<exists>c. generateSingleComponent opts customCode clock tick node componentName = Inr c \<and>
       gc_id c = node_id (attrs node)"
  by (cases "framework opts")
     (simp_all add: generateSingleComponent_def generateJSX_def Let_def)

lemma generate_frames_ok:
  "framework opts \<noteq> Vue \<Longrightarrow>
   \<exists>cs. generate_frames opts customCode clock tick frames = Inr cs \<and>
        map gc_id cs = map (\<lambda>n. node_id (attrs n)) frames"
proof (induction frames arbitrary: tick)
  case Nil
  then show ?case by simp
next
  case (Cons frame rest)
  from generateSingleComponent_ok[OF Cons.prems]
  obtain c where c: "generateSingleComponent opts customCode clock tick frame
                       (node_name (attrs frame)) = Inr c" "gc_id c = node_id (attrs frame)"
    by blast
  from Cons.IH[OF Cons.prems]
  obtain cs where cs: "generate_frames opts customCode clock (tick + 2) rest = Inr cs"
    "map gc_id cs = map (\<lambda>n. node_id (attrs n)) rest"
    by blast
  from c cs show ?case by simp
qed

lemma generate_named_unresolved:
  "\<forall>e \<in> set entries. findNodeById figmaData (comp_key (snd e)) = None \<Longrightarrow>
   generate_named figmaData opts customCode clock tick entries = Inr []"
  by (induction entries) auto

text \<open>
  C5.  When the named-components table is empty (absent or without entries), the roots
  the walker generates from are exactly the FRAME nodes with at least one child, in the
  order a full pre-order traversal of the document meets them: \<open>findMainFrames\<close> is that
  list, the result of \<open>generateComponents\<close> is the generation over it, and for the
  frameworks that generate (react, html) the components come out in that order, one per
  such frame.
\<close>

theorem fallback_roots_are_frames_in_preorder:
  assumes "components figmaData = None \<or> components figmaData = Some []"
  shows "findMainFrames (document figmaData) = spec_fallback_roots (document figmaData) \<and>
         generateComponents figmaData opts customCode clock =
           generate_frames opts customCode clock 0 (spec_fallback_roots (document figmaData)) \<and>
         (framework opts \<noteq> Vue \<longrightarrow>
            (\<exists>cs. generateComponents figmaData opts customCode clock = Inr cs \<and>
                  map gc_id cs =
                    map (\<lambda>n. node_id (attrs n)) (spec_fallback_roots (document figmaData))))"
proof -
  have g: "generateComponents figmaData opts customCode clock =
           generate_frames opts customCode clock 0 (spec_fallback_roots (document figmaData))"
    using assms by (auto simp: generateComponents_def findMainFrames_preorder)
  show ?thesis
    using generate_frames_ok[of opts customCode clock 0 "spec_fallback_roots (document figmaData)"]
    by (simp add: g findMainFrames_preorder)
qed

theorem fallback_roots_are_frames_in_preorder_witness:
  "components file_without_components = None \<and>
   framework css_modules_options \<noteq> Vue \<and>
   spec_fallback_roots (document file_without_components) = [card_frame] \<and>
   findMainFrames (document file_without_components) = [card_frame] \<and>
   (\<exists>cs. generateComponents file_without_components css_modules_options no_custom_code tick_clock
            = Inr cs \<and> map gc_id cs = [''1:1''])"
proof -
  have a: "components file_without_components = None"
    by (simp add: file_without_components_def)
  have b: "framework css_modules_options \<noteq> Vue"
    by (simp add: css_modules_options_def)
  have r: "spec_fallback_roots (document file_without_components) = [card_frame]"
    by (simp add: spec_fallback_roots_def file_without_components_def sample_document_def
        sample_canvas_def card_frame_def empty_frame_def hello_text_def
        is_frame_with_children_def child_list_def default_attrs_def)
  have i: "node_id (attrs card_frame) = ''1:1''"
    by (simp add: card_frame_def default_attrs_def)
  from a have "components file_without_components = None \<or>
               components file_without_components = Some []" by simp
  from fallback_roots_are_frames_in_preorder [OF this, of css_modules_options no_custom_code tick_clock]
  have f: "findMainFrames (document file_without_components) =
             spec_fallback_roots (document file_without_components)"
    and g: "framework css_modules_options \<noteq> Vue \<longrightarrow>
            (\<exists>cs. generateComponents file_without_components css_modules_options no_custom_code
                    tick_clock = Inr cs \<and>
                  map gc_id cs = map (\<lambda>n. node_id (attrs n))
                    (spec_fallback_roots (document file_without_components)))"
    by blast+
  from g b have "\<exists>cs. generateComponents file_without_components css_modules_options no_custom_code
                    tick_clock = Inr cs \<and>
                  map gc_id cs = map (\<lambda>n. node_id (attrs n)) [card_frame]"
    unfolding r by blast
  then have "\<exists>cs. generateComponents file_without_components css_modules_options no_custom_code
                    tick_clock = Inr cs \<and> map gc_id cs = [''1:1'']"
    by (simp add: i)
  with a b r f show ?thesis by simp
qed

lemma generate_named_ignores_map_keys:
  "generate_named (figmaData\<lparr>components := table\<rparr>) opts customCode clock tick
     (map (\<lambda>e. (rekey (fst e), snd e)) entries) =
   generate_named figmaData opts customCode clock tick entries"
  by (induction entries arbitrary: tick)
     (auto simp: findNodeById_def split: option.splits sum.splits)

lemma generateComponents_ignores_map_keys:
  assumes "components figmaData = Some entries"
  shows "generateComponents
           (figmaData\<lparr>components := Some (map (\<lambda>e. (rekey (fst e), snd e)) entries)\<rparr>)
           opts customCode clock =
         generateComponents figmaData opts customCode clock"
  using assms
  by (simp add: generateComponents_def generate_named_ignores_map_keys split: sum.splits)

text \<open>
  C10.  The named-components path looks each entry up by its \<open>key\<close> field; the key under
  which the entry is filed in the table is not used (filing the entries under other keys
  changes nothing).  When no node of the document has an id equal to the \<open>key\<close> of any
  entry, no entry resolves and the result is the generation over the frames of the
  fallback, although the table has entries.
\<close>

theorem foreign_keys_fall_back_to_frames:
  assumes "components figmaData = Some entries"
    and "\<forall>e \<in> set entries.
           comp_key (snd e) \<notin> set (map (\<lambda>n. node_id (attrs n)) (preorder (document figmaData)))"
  shows "list_all (\<lambda>e. findNodeById figmaData (comp_key (snd e)) = None) entries \<and>
         generateComponents figmaData opts customCode clock =
           generate_frames opts customCode clock 0 (findMainFrames (document figmaData)) \<and>
         generateComponents
           (figmaData\<lparr>components := Some (map (\<lambda>e. (rekey (fst e), snd e)) entries)\<rparr>)
           opts customCode clock =
         generateComponents figmaData opts customCode clock"
proof -
  from assms(2) have u: "\<forall>e \<in> set entries. findNodeById figmaData (comp_key (snd e)) = None"
    by (simp add: findNodeById_None_iff)
  then have "generate_named figmaData opts customCode clock 0 entries = Inr []"
    by (rule generate_named_unresolved)
  with assms(1) u generateComponents_ignores_map_keys [OF assms(1), of rekey opts customCode clock]
  show ?thesis
    by (simp add: generateComponents_def list_all_iff)
qed

theorem foreign_keys_fall_back_to_frames_witness:
  "components file_with_foreign_key =
     Some [(''1:1'', \<lparr>comp_key = ''a1b2c3'', comp_name = ''Card''\<rparr>)] \<and>
   search ''1:1'' (document file_with_foreign_key) = Some card_frame \<and>
   findNodeById file_with_foreign_key ''a1b2c3'' = None \<and>
   generateComponents file_with_foreign_key css_modules_options no_custom_code tick_clock =
     generate_frames css_modules_options no_custom_code tick_clock 0
       (findMainFrames (document file_with_foreign_key))"
proof -
  let ?entries = "[(''1:1'', \<lparr>comp_key = ''a1b2c3'', comp_name = ''Card''\<rparr>)]"
  have a: "components file_with_foreign_key = Some ?entries"
    by (simp add: file_with_foreign_key_def)
  have b: "\<forall>e \<in> set ?entries.
           comp_key (snd e) \<notin> set (map (\<lambda>n. node_id (attrs n))
                                         (preorder (document file_with_foreign_key)))"
    by (simp add: file_with_foreign_key_def sample_document_def sample_canvas_def card_frame_def
        empty_frame_def hello_text_def default_attrs_def)
  have c: "search ''1:1'' (document file_with_foreign_key) = Some card_frame"
    by (simp add: file_with_foreign_key_def sample_document_def sample_canvas_def card_frame_def
        empty_frame_def hello_text_def default_attrs_def)
  from foreign_keys_fall_back_to_frames [OF a b, of css_modules_options no_custom_code tick_clock id]
    a c
  show ?thesis by simp
qed


section \<open>Full CSS override\<close>

text \<open>
  C6, as the claim words it, fails on the server's mock route: \<open>generateMockCSS\<close> appends
  the override to the base text, so the emitted text is not the override.
\<close>

theorem mock_route_appends_full_css:
  "truthy_opt_str (Some ''a{}'') \<and>
   generateMockCSS (Some ''Sample'') None (Some ''a{}'') \<noteq> ''a{}''"
  by code_simp

text \<open>
  C6, amended.  With a non-empty full CSS override, \<open>generateCSS\<close> of the generation hook
  returns the override exactly, in place of the base text and of any custom CSS
  fragment; \<open>generateMockCSS\<close> of the server returns the text it produces without the
  override, followed by the comment \<open>/* Advanced CSS */\<close> and the override.
\<close>

theorem full_css_override:
  assumes "fullCss = Some s" and "s \<noteq> []"
  shows "hook_generateCSS figmaData analysis customCss fullCss = s \<and>
         generateMockCSS figmaData_name customCss fullCss =
           generateMockCSS figmaData_name customCss None @
           ''\<newline>\<newline>/* Advanced CSS */\<newline>'' @ s"
  using assms
  by (simp add: hook_generateCSS_def generateMockCSS_def Let_def truthy_opt_str_def opt_text_def)

theorem full_css_override_witness:
  "hook_generateCSS file_without_components sample_analysis (Some ''b{}'') (Some ''a{}'') = ''a{}'' \<and>
   generateMockCSS (Some ''Sample'') (Some ''b{}'') (Some ''a{}'') =
     generateMockCSS (Some ''Sample'') (Some ''b{}'') None @
     ''\<newline>\<newline>/* Advanced CSS */\<newline>'' @ ''a{}''"
proof -
  have a: "Some ''a{}'' = Some ''a{}''" by simp
  have b: "''a{}'' \<noteq> []" by simp
  from full_css_override [OF a b, of file_without_components sample_analysis "Some ''b{}''"
      "Some ''Sample''"]
  show ?thesis .
qed

section \<open>The caches of \<open>CodeGenerator\<close>\<close>

























section \<open>Memoization by node id\<close>








end
